theory Spec2Isabelle
  imports Complex_Main "HOL-Library.Word"
begin

section \<open>Values shared by all components\<close>

text \<open>
  Audio data is Python \<^verbatim>\<open>bytes\<close>: a list of octets. Text is a Python \<^verbatim>\<open>str\<close>: a \<open>string\<close>.
\<close>

type_synonym bytes = "8 word list"

section \<open>components/microphone.py: class AMicrophone\<close>

text \<open>
  The object holds the capture queue and the two gates. The calls it makes on the audio
  device and on the root logger are kept, in order, in \<open>mic_trace\<close>; the device itself
  (PyAudio) is outside the repository and is not interpreted.
\<close>

datatype mic_effect =
    LoggingInfo string
  | StreamStop
  | StreamClose
  | Terminate

record microphone =
  queue :: "bytes list"
  is_recording :: bool
  is_receiving :: bool
  mic_trace :: "mic_effect list"

definition init_microphone :: microphone where
  "init_microphone =
     \<lparr>queue = [], is_recording = False, is_receiving = False,
      mic_trace = [LoggingInfo ''AsyncMicrophone initialized and ready'']\<rparr>"

text \<open>
  \<^verbatim>\<open>_callback(self, in_data, frame_count, time_info, status)\<close>: the frame is put on the
  queue only under \<^verbatim>\<open>self.is_recording and not self.is_receiving\<close>; the return value is
  always \<^verbatim>\<open>(None, paContinue)\<close> and is left out.
\<close>

definition callback :: "bytes \<Rightarrow> microphone \<Rightarrow> microphone" where
  "callback in_data m =
     (if is_recording m \<and> \<not> is_receiving m
      then m\<lparr>queue := queue m @ [in_data]\<rparr>
      else m)"

definition start_recording :: "microphone \<Rightarrow> microphone" where
  "start_recording m =
     m\<lparr>is_recording := True, mic_trace := mic_trace m @ [LoggingInfo ''Recording started'']\<rparr>"

definition stop_recording :: "microphone \<Rightarrow> microphone" where
  "stop_recording m =
     m\<lparr>is_recording := False, mic_trace := mic_trace m @ [LoggingInfo ''Recording stopped'']\<rparr>"

definition start_receiving :: "microphone \<Rightarrow> microphone" where
  "start_receiving m =
     m\<lparr>is_receiving := True, is_recording := False,
       mic_trace := mic_trace m @ [LoggingInfo ''Receiving assistant responses enabled'']\<rparr>"

definition stop_receiving :: "microphone \<Rightarrow> microphone" where
  "stop_receiving m =
     m\<lparr>is_receiving := False,
       mic_trace := mic_trace m @ [LoggingInfo ''Receiving assistant responses disabled'']\<rparr>"

text \<open>
  \<^verbatim>\<open>get_audio_data\<close>: the loop \<^verbatim>\<open>while not self.queue.empty(): data += self.queue.get()\<close>
  takes the frames from the front of the queue until none is left; the result is
  \<^verbatim>\<open>data if data else None\<close>.
\<close>

fun drain_loop :: "bytes list \<Rightarrow> bytes \<Rightarrow> bytes" where
  "drain_loop [] data = data"
| "drain_loop (frame # q) data = drain_loop q (data @ frame)"

definition get_audio_data :: "microphone \<Rightarrow> bytes option \<times> microphone" where
  "get_audio_data m =
     (let data = drain_loop (queue m) []
      in (if data \<noteq> [] then Some data else None, m\<lparr>queue := []\<rparr>))"

definition close :: "microphone \<Rightarrow> microphone" where
  "close m =
     m\<lparr>mic_trace := mic_trace m @
        [StreamStop, StreamClose, Terminate, LoggingInfo ''AsyncMicrophone stream closed'']\<rparr>"

subsection \<open>Interleavings of the producer and the consumer\<close>

text \<open>
  The device callback and the protocol loop take turns on the microphone object. An
  interleaving is a list of operations; \<open>run_mic\<close> performs them in order and collects
  what each drain returned. \<open>SetRecording\<close> is the direct assignment
  \<^verbatim>\<open>self.microphone.is_recording = True\<close> made by the client.
\<close>

datatype mic_op =
    Frame bytes
  | Drain
  | StartRecording
  | StopRecording
  | StartReceiving
  | StopReceiving
  | SetRecording

fun run_mic :: "mic_op list \<Rightarrow> microphone \<Rightarrow> bytes option list \<times> microphone" where
  "run_mic [] m = ([], m)"
| "run_mic (Frame f # ops) m = run_mic ops (callback f m)"
| "run_mic (Drain # ops) m =
     (case get_audio_data m of (d, m') \<Rightarrow>
        (case run_mic ops m' of (ds, m'') \<Rightarrow> (d # ds, m'')))"
| "run_mic (StartRecording # ops) m = run_mic ops (start_recording m)"
| "run_mic (StopRecording # ops) m = run_mic ops (stop_recording m)"
| "run_mic (StartReceiving # ops) m = run_mic ops (start_receiving m)"
| "run_mic (StopReceiving # ops) m = run_mic ops (stop_receiving m)"
| "run_mic (SetRecording # ops) m = run_mic ops (m\<lparr>is_recording := True\<rparr>)"

text \<open>
  The specification's side of the comparison: the frames of an interleaving that arrive
  while recording is true and receiving is false, given the gates at its start.
\<close>

fun spec_admitted :: "mic_op list \<Rightarrow> bool \<Rightarrow> bool \<Rightarrow> bytes list" where
  "spec_admitted [] rec rcv = []"
| "spec_admitted (Frame f # ops) rec rcv =
     (if rec \<and> \<not> rcv then f # spec_admitted ops rec rcv else spec_admitted ops rec rcv)"
| "spec_admitted (Drain # ops) rec rcv = spec_admitted ops rec rcv"
| "spec_admitted (StartRecording # ops) rec rcv = spec_admitted ops True rcv"
| "spec_admitted (StopRecording # ops) rec rcv = spec_admitted ops False rcv"
| "spec_admitted (StartReceiving # ops) rec rcv = spec_admitted ops False True"
| "spec_admitted (StopReceiving # ops) rec rcv = spec_admitted ops rec False"
| "spec_admitted (SetRecording # ops) rec rcv = spec_admitted ops True rcv"

text \<open>The bytes a drain hands over: nothing for the no-data sentinel.\<close>

definition drained :: "bytes option \<Rightarrow> bytes" where
  "drained d = (case d of None \<Rightarrow> [] | Some b \<Rightarrow> b)"

section \<open>Decoded JSON and the Python runtime\<close>

text \<open>
  An inbound event is whatever \<^verbatim>\<open>json.loads\<close> returns: \<^verbatim>\<open>None\<close>, a bool, a number, a
  \<^verbatim>\<open>str\<close>, a list or a dict. A dict is an association list (a decoded object has each key
  once). The handlers never compute with numbers.
\<close>

datatype json =
    JNull
  | JBool bool
  | JNum rat
  | JStr string
  | JArr "json list"
  | JObj "(string \<times> json) list"

type_synonym dict = "(string \<times> json) list"

text \<open>\<^verbatim>\<open>d.get(k, default)\<close>; \<^verbatim>\<open>d.get(k)\<close> is \<open>get_or d k JNull\<close>.\<close>

definition get_or :: "dict \<Rightarrow> string \<Rightarrow> json \<Rightarrow> json" where
  "get_or d k dflt = (case map_of d k of None \<Rightarrow> dflt | Some v \<Rightarrow> v)"

text \<open>Python's \<^verbatim>\<open>sub in s\<close> on two strings.\<close>

fun starts_with :: "string \<Rightarrow> string \<Rightarrow> bool" where
  "starts_with [] s = True"
| "starts_with (c # cs) [] = False"
| "starts_with (c # cs) (d # ds) = (c = d \<and> starts_with cs ds)"

fun str_contains :: "string \<Rightarrow> string \<Rightarrow> bool" where
  "str_contains sub [] = (sub = [])"
| "str_contains sub (c # s) = (starts_with sub (c # s) \<or> str_contains sub s)"

text \<open>
  The exceptions the code can meet. \<open>ConnectionClosedError\<close> and \<open>ConnectionClosedOK\<close>
  are the two subclasses of \<^verbatim>\<open>websockets.ConnectionClosed\<close> and carry their text;
  \<open>KeyboardInterrupt\<close> is not an \<^verbatim>\<open>Exception\<close>.
\<close>

datatype py_error =
    KeyError string
  | TypeError
  | AttributeError
  | JSONDecodeError
  | Base64Error
  | ConnectionClosedError string
  | ConnectionClosedOK string
  | OtherException string
  | KeyboardInterrupt

definition is_connection_closed :: "py_error \<Rightarrow> bool" where
  "is_connection_closed e =
     (case e of ConnectionClosedError _ \<Rightarrow> True | ConnectionClosedOK _ \<Rightarrow> True | _ \<Rightarrow> False)"

text \<open>
  What the Python runtime and its libraries compute is a parameter of the model:
  \<^verbatim>\<open>json.loads\<close> (\<open>None\<close>: it raises \<^verbatim>\<open>JSONDecodeError\<close>), \<^verbatim>\<open>json.dumps\<close>,
  \<^verbatim>\<open>base64.b64decode\<close> on a \<^verbatim>\<open>str\<close> (\<open>None\<close>: it raises), \<^verbatim>\<open>base64.b64encode(..).decode\<close>,
  the text \<^verbatim>\<open>str\<close> and f-strings give a value that is not a \<^verbatim>\<open>str\<close>, the text of an
  exception the runtime raises, \<^verbatim>\<open>random.randint(1, 100)\<close> and the formatted
  \<^verbatim>\<open>datetime.now()\<close>, and the text of the \<^verbatim>\<open>TypeError\<close> of a call \<^verbatim>\<open>f(**args)\<close> that
  does not fit \<^verbatim>\<open>f\<close>.
\<close>

record env =
  loads :: "string \<Rightarrow> json option"
  dumps :: "json \<Rightarrow> string"
  b64decode :: "string \<Rightarrow> bytes option"
  b64encode :: "bytes \<Rightarrow> string"
  repr_text :: "json \<Rightarrow> string"
  exc_text :: "py_error \<Rightarrow> string"
  randint :: int
  now_text :: string
  call_error :: "string \<Rightarrow> json \<Rightarrow> string"

definition py_str :: "env \<Rightarrow> json \<Rightarrow> string" where
  "py_str env v = (case v of JStr s \<Rightarrow> s | _ \<Rightarrow> repr_text env v)"

text \<open>A text between two apostrophes, as in \<^verbatim>\<open>f"'{name}'"\<close>.\<close>

definition quoted :: "string \<Rightarrow> string" where
  "quoted s = [CHR 0x27] @ s @ [CHR 0x27]"

definition str_of_error :: "env \<Rightarrow> py_error \<Rightarrow> string" where
  "str_of_error env e =
     (case e of ConnectionClosedError m \<Rightarrow> m | ConnectionClosedOK m \<Rightarrow> m
      | OtherException m \<Rightarrow> m | _ \<Rightarrow> exc_text env e)"

text \<open>
  \<^verbatim>\<open>needle in v\<close> for a string needle: a substring test on a \<^verbatim>\<open>str\<close>, membership in a
  list, key membership in a dict, and a \<^verbatim>\<open>TypeError\<close> on \<^verbatim>\<open>None\<close>, a bool or a number.
\<close>

definition py_in :: "string \<Rightarrow> json \<Rightarrow> py_error + bool" where
  "py_in needle v =
     (case v of
        JStr s \<Rightarrow> Inr (str_contains needle s)
      | JArr xs \<Rightarrow> Inr (JStr needle \<in> set xs)
      | JObj d \<Rightarrow> Inr (needle \<in> set (map fst d))
      | _ \<Rightarrow> Inl TypeError)"

text \<open>A value that cannot be a dict key or be looked up in a dict: a list or a dict.\<close>

definition unhashable :: "json \<Rightarrow> bool" where
  "unhashable v = (case v of JArr _ \<Rightarrow> True | JObj _ \<Rightarrow> True | _ \<Rightarrow> False)"

section \<open>components/constants.py and components/events.py\<close>

definition ASSISTANT_NAME :: string where "ASSISTANT_NAME = ''Jarvis''"
definition MY_NAME :: string where "MY_NAME = ''Chris''"

definition BASE_INSTRUCTIONS :: string where
  "BASE_INSTRUCTIONS =
     ''You are '' @ ASSISTANT_NAME @
     '', your role is to provide insightful and supportive responses tailored to '' @ MY_NAME @
     [CHR 0x27] @ ''s needs. '' @
     ''Maintain a helpful, informative approach. Similar to Jarvis from Iron Man. '' @
     ''Below are some additional instructions to help you understand your role and how to interact with '' @
     MY_NAME @ '': '' @
     ''Make sure to always keep your responses as concise and to the point as possible.'' @
     ''Never break character.''"

definition OPEN_AI_VOICE :: string where "OPEN_AI_VOICE = ''echo''"
definition OPENAI_PREFIX_PADDING_MS :: rat where "OPENAI_PREFIX_PADDING_MS = 300"
definition OPENAI_SILENCE_THRESHOLD :: rat where "OPENAI_SILENCE_THRESHOLD = 1 / 2"
definition OPENAI_SILENCE_DURATION_MS :: rat where "OPENAI_SILENCE_DURATION_MS = 700"
definition WS_CLOSE_TIMEOUT :: nat where "WS_CLOSE_TIMEOUT = 120"
definition WS_PING_INTERVAL :: nat where "WS_PING_INTERVAL = 30"
definition WS_PING_TIMEOUT :: nat where "WS_PING_TIMEOUT = 10"
definition CHANNELS :: nat where "CHANNELS = 1"
definition RATE :: nat where "RATE = 24000"
definition SILENCE_DURATION :: rat where "SILENCE_DURATION = 2 / 10"

definition SESSION_UPDATE :: string where "SESSION_UPDATE = ''session.update''"
definition CONVERSATION_ITEM_CREATE :: string where
  "CONVERSATION_ITEM_CREATE = ''conversation.item.create''"
definition RESPONSE_CREATE :: string where "RESPONSE_CREATE = ''response.create''"
definition INPUT_AUDIO_BUFFER_APPEND :: string where
  "INPUT_AUDIO_BUFFER_APPEND = ''input_audio_buffer.append''"
definition INPUT_AUDIO_BUFFER_COMMIT :: string where
  "INPUT_AUDIO_BUFFER_COMMIT = ''input_audio_buffer.commit''"

definition RESPONSE_CREATED :: string where "RESPONSE_CREATED = ''response.created''"
definition RESPONSE_DONE :: string where "RESPONSE_DONE = ''response.done''"
definition RESPONSE_TEXT_DELTA :: string where "RESPONSE_TEXT_DELTA = ''response.text.delta''"
definition RESPONSE_AUDIO_DELTA :: string where "RESPONSE_AUDIO_DELTA = ''response.audio.delta''"
definition RESPONSE_OUTPUT_ITEM_ADDED :: string where
  "RESPONSE_OUTPUT_ITEM_ADDED = ''response.output_item.added''"
definition RESPONSE_FUNCTION_CALL_ARGUMENTS_DELTA :: string where
  "RESPONSE_FUNCTION_CALL_ARGUMENTS_DELTA = ''response.function_call_arguments.delta''"
definition RESPONSE_FUNCTION_CALL_ARGUMENTS_DONE :: string where
  "RESPONSE_FUNCTION_CALL_ARGUMENTS_DONE = ''response.function_call_arguments.done''"
definition INPUT_AUDIO_BUFFER_SPEECH_STARTED :: string where
  "INPUT_AUDIO_BUFFER_SPEECH_STARTED = ''input_audio_buffer.speech_started''"
definition INPUT_AUDIO_BUFFER_SPEECH_STOPPED :: string where
  "INPUT_AUDIO_BUFFER_SPEECH_STOPPED = ''input_audio_buffer.speech_stopped''"
definition RATE_LIMITS_UPDATED :: string where "RATE_LIMITS_UPDATED = ''rate_limits.updated''"
definition ERROR :: string where "ERROR = ''error''"

text \<open>
  \<^verbatim>\<open>class EventHandlers\<close>: a dict from event type to handler. The handlers are the bound
  methods of the client, named here by a datatype.
\<close>

datatype handler =
    HandleResponseCreated
  | HandleOutputItemAdded
  | HandleFunctionCallArgumentsDelta
  | HandleFunctionCallArgumentsDone
  | HandleResponseTextDelta
  | HandleResponseAudioDelta
  | HandleResponseDone
  | HandleError
  | HandleSpeechStarted
  | HandleSpeechStopped
  | HandleRateLimitsUpdated

type_synonym event_handlers = "(string \<times> handler) list"

text \<open>\<^verbatim>\<open>self._handlers[event_type] = handler\<close>: a later registration overrides.\<close>

definition register :: "string \<Rightarrow> handler \<Rightarrow> event_handlers \<Rightarrow> event_handlers" where
  "register event_type h handlers = (event_type, h) # handlers"

text \<open>\<^verbatim>\<open>self._handlers.get(event_type)\<close>: looking an unhashable value up raises.\<close>

definition get_handler :: "event_handlers \<Rightarrow> json \<Rightarrow> py_error + handler option" where
  "get_handler handlers event_type =
     (if unhashable event_type then Inl TypeError
      else case event_type of JStr t \<Rightarrow> Inr (map_of handlers t) | _ \<Rightarrow> Inr None)"

section \<open>components/tools.py\<close>

text \<open>
  A tool is an \<^verbatim>\<open>async def\<close> called as \<^verbatim>\<open>f(**args)\<close>: it gets the decoded arguments and
  either returns a result (\<open>Inr\<close>) or raises an exception, of which the caller uses the
  text only (\<open>Inl\<close>). The two tools of the repository take no parameter, so any call that
  is not \<^verbatim>\<open>f(**{})\<close> raises a \<^verbatim>\<open>TypeError\<close>.
\<close>

type_synonym tool = "json \<Rightarrow> string + json"

definition get_random_number :: "env \<Rightarrow> tool" where
  "get_random_number env args =
     (if args = JObj [] then Inr (JObj [(''random_number'', JNum (of_int (randint env)))])
      else Inl (call_error env ''get_random_number'' args))"

definition get_current_time :: "env \<Rightarrow> tool" where
  "get_current_time env args =
     (if args = JObj [] then Inr (JObj [(''current_time'', JStr (now_text env))])
      else Inl (call_error env ''get_current_time'' args))"

definition function_map :: "env \<Rightarrow> (string \<times> tool) list" where
  "function_map env =
     [(''get_current_time'', get_current_time env),
      (''get_random_number'', get_random_number env)]"

definition tool_descriptor :: "string \<Rightarrow> string \<Rightarrow> json" where
  "tool_descriptor name description =
     JObj [(''type'', JStr ''function''), (''name'', JStr name),
           (''description'', JStr description),
           (''parameters'', JObj [(''type'', JStr ''object''), (''properties'', JObj []),
                                  (''required'', JArr [])])]"

definition base_tools :: json where
  "base_tools =
     JArr [tool_descriptor ''get_current_time'' ''Returns the current time.'',
           tool_descriptor ''get_random_number'' ''Returns a random number between 1 and 100.'']"

section \<open>components/client.py: class RealtimeAPI\<close>

text \<open>
  Every call the client makes on a collaborator outside the protocol logic (the logging
  functions, \<^verbatim>\<open>print\<close>, the connection, the output device, \<^verbatim>\<open>asyncio.sleep\<close>, a tool) is
  written, with its arguments, at the end of the client's \<open>trace\<close>. The \<^verbatim>\<open>style\<close> argument
  of \<^verbatim>\<open>log_info\<close> is left out. A call on the connection or on a device returns normally
  unless the run script below says otherwise. Times are readings of
  \<^verbatim>\<open>time.perf_counter()\<close>, delays are in seconds.
\<close>

type_synonym time = rat

datatype effect =
    LogInfo string
  | LogError string
  | LogWarning string
  | LogDebug string
  | LogWsEvent string json
  | LogToolCall json json json
  | LogRuntime string time
  | Print string
  | Connect string dict nat nat nat
  | WsSend string
  | WsClose
  | Sleep rat
  | Invoke string json
  | PlaybackOpen
  | PlaybackWrite bytes
  | PlaybackStop
  | PlaybackClose
  | PlaybackTerminate

record client =
  prompts :: "string list option"
  model :: string
  api_key :: string
  exit_event :: bool
  microphone :: microphone
  assistant_reply :: string
  audio_chunks :: "bytes list"
  response_in_progress :: bool
  function_call :: "dict option"
  function_call_args :: string
  response_start_time :: "time option"
  event_handlers :: event_handlers
  tools :: json
  trace :: "effect list"

text \<open>
  The outcome of a method: the exception it raised, if any, and the client as the method
  left it (what was assigned before a \<^verbatim>\<open>raise\<close> stays assigned).
\<close>

type_synonym outcome = "py_error option \<times> client"

definition emit :: "effect list \<Rightarrow> client \<Rightarrow> client" where
  "emit es s = s\<lparr>trace := trace s @ es\<rparr>"

text \<open>Run \<open>g\<close> after \<open>r\<close> unless \<open>r\<close> raised.\<close>

definition and_then :: "outcome \<Rightarrow> (client \<Rightarrow> outcome) \<Rightarrow> outcome" where
  "and_then r g = (case r of (None, s) \<Rightarrow> g s | (Some e, s) \<Rightarrow> (Some e, s))"

text \<open>
  \<^verbatim>\<open>log_ws_event(direction, event)\<close> of components/logging.py reads
  \<^verbatim>\<open>event.get("type", "Unknown")\<close> and looks the type up in a dict of emojis: it raises on
  an event that is not a dict and on a type that is not hashable.
\<close>

definition log_ws_event :: "string \<Rightarrow> json \<Rightarrow> client \<Rightarrow> outcome" where
  "log_ws_event direction event s =
     (case event of
        JObj d \<Rightarrow>
          (if unhashable (get_or d ''type'' (JStr ''Unknown'')) then (Some TypeError, s)
           else (None, emit [LogWsEvent direction event] s))
      | _ \<Rightarrow> (Some AttributeError, s))"

definition register_event_handlers :: "event_handlers \<Rightarrow> event_handlers" where
  "register_event_handlers hs =
     register RATE_LIMITS_UPDATED HandleRateLimitsUpdated
     (register INPUT_AUDIO_BUFFER_SPEECH_STOPPED HandleSpeechStopped
     (register INPUT_AUDIO_BUFFER_SPEECH_STARTED HandleSpeechStarted
     (register ERROR HandleError
     (register RESPONSE_DONE HandleResponseDone
     (register RESPONSE_AUDIO_DELTA HandleResponseAudioDelta
     (register RESPONSE_TEXT_DELTA HandleResponseTextDelta
     (register RESPONSE_FUNCTION_CALL_ARGUMENTS_DONE HandleFunctionCallArgumentsDone
     (register RESPONSE_FUNCTION_CALL_ARGUMENTS_DELTA HandleFunctionCallArgumentsDelta
     (register RESPONSE_OUTPUT_ITEM_ADDED HandleOutputItemAdded
     (register RESPONSE_CREATED HandleResponseCreated hs))))))))))"

text \<open>
  \<^verbatim>\<open>__init__(self, prompts=None, model=None, tools=None)\<close>, given the value of
  \<^verbatim>\<open>os.getenv("OPENAI_API_KEY")\<close>. Without a key the process exits (\<open>None\<close>).
\<close>

definition RealtimeAPI_init ::
  "string list option \<Rightarrow> string option \<Rightarrow> json option \<Rightarrow> string option \<Rightarrow> client option" where
  "RealtimeAPI_init prompts_arg model_arg tools_arg key =
     (case key of
        None \<Rightarrow> None
      | Some k \<Rightarrow>
          if k = [] then None
          else Some
            \<lparr>prompts = prompts_arg,
             model = (case model_arg of
                        None \<Rightarrow> ''gpt-4o-realtime-preview-2024-10-01''
                      | Some m \<Rightarrow> if m = [] then ''gpt-4o-realtime-preview-2024-10-01'' else m),
             api_key = k,
             exit_event = False,
             microphone = init_microphone,
             assistant_reply = [],
             audio_chunks = [],
             response_in_progress = False,
             function_call = None,
             function_call_args = [],
             response_start_time = None,
             event_handlers = register_event_handlers [],
             tools = (case tools_arg of
                        None \<Rightarrow> base_tools
                      | Some t \<Rightarrow> if t = JArr [] then base_tools else t),
             trace = []\<rparr>)"

subsection \<open>Function execution\<close>

definition error_item :: "string \<Rightarrow> json" where
  "error_item error_message =
     JObj [(''type'', JStr CONVERSATION_ITEM_CREATE),
           (''item'', JObj [(''type'', JStr ''message''), (''role'', JStr ''assistant''),
              (''content'', JArr [JObj [(''type'', JStr ''text''),
                                        (''text'', JStr error_message)]])])]"

definition send_error_message_to_assistant :: "env \<Rightarrow> string \<Rightarrow> client \<Rightarrow> outcome" where
  "send_error_message_to_assistant env error_message s =
     and_then (log_ws_event ''Outgoing'' (error_item error_message) s)
       (\<lambda>s. (None, emit [WsSend (dumps env (error_item error_message))] s))"

text \<open>
  \<^verbatim>\<open>execute_function_call(self, function_name, call_id, args, websocket)\<close> against a
  function map \<open>fm\<close>. \<^verbatim>\<open>function_name in function_map\<close> hashes the name, which raises
  on a list or a dict. \<open>call_function\<close> is the \<^verbatim>\<open>if\<close>/\<^verbatim>\<open>else\<close> that computes
  \<^verbatim>\<open>result\<close>; the call \<^verbatim>\<open>function_map[function_name](**args)\<close> is written to the trace
  as \<open>Invoke\<close>. A tool returns a JSON value, which \<^verbatim>\<open>json.dumps\<close> accepts.
\<close>

definition function_call_output_event :: "env \<Rightarrow> json \<Rightarrow> json \<Rightarrow> json" where
  "function_call_output_event env call_id result =
     JObj [(''type'', JStr CONVERSATION_ITEM_CREATE),
           (''item'', JObj [(''type'', JStr ''function_call_output''),
                            (''call_id'', call_id),
                            (''output'', JStr (dumps env result))])]"

definition call_function ::
  "env \<Rightarrow> (string \<times> tool) list \<Rightarrow> json \<Rightarrow> json \<Rightarrow> client \<Rightarrow> json \<times> outcome" where
  "call_function env fm function_name args s =
     (case (case function_name of JStr n \<Rightarrow> map_of fm n | _ \<Rightarrow> None) of
        Some f \<Rightarrow>
          (case f args of
             Inr result \<Rightarrow>
               (result,
                (None, emit [Invoke (py_str env function_name) args,
                             LogToolCall function_name args result] s))
           | Inl e \<Rightarrow>
               (let error_message =
                      ''Error executing function '' @ quoted (py_str env function_name) @ '': '' @ e
                in (JObj [(''error'', JStr error_message)],
                    send_error_message_to_assistant env error_message
                      (emit [Invoke (py_str env function_name) args,
                             LogError error_message] s))))
      | None \<Rightarrow>
          (let error_message = ''Function '' @ quoted (py_str env function_name) @ '' not found.''
           in (JObj [(''error'', JStr error_message)],
               send_error_message_to_assistant env error_message
                 (emit [LogError error_message] s))))"

definition execute_function_call ::
  "env \<Rightarrow> (string \<times> tool) list \<Rightarrow> json \<Rightarrow> json \<Rightarrow> json \<Rightarrow> client \<Rightarrow> outcome" where
  "execute_function_call env fm function_name call_id args s =
     (if unhashable function_name then (Some TypeError, s)
      else
        (case call_function env fm function_name args s of
           (result, r) \<Rightarrow>
             and_then r (\<lambda>s.
               (let function_call_output = function_call_output_event env call_id result
                in and_then (log_ws_event ''Outgoing'' function_call_output s) (\<lambda>s.
                     (None,
                      (emit [WsSend (dumps env function_call_output),
                             WsSend (dumps env (JObj [(''type'', JStr RESPONSE_CREATE)]))] s)
                        \<lparr>function_call := None, function_call_args := []\<rparr>))))))"


subsection \<open>Specialized event handlers\<close>

text \<open>
  Each handler gets the event, a dict (the dispatcher has already called \<^verbatim>\<open>event.get\<close>).
\<close>

definition handle_response_created :: "dict \<Rightarrow> client \<Rightarrow> outcome" where
  "handle_response_created event s =
     (None, s\<lparr>microphone := start_receiving (microphone s), response_in_progress := True\<rparr>)"

text \<open>
  \<^verbatim>\<open>item = event.get("item", {})\<close>, then \<^verbatim>\<open>item.get("type")\<close>: an item that is not a dict
  has no \<^verbatim>\<open>get\<close>.
\<close>

definition handle_output_item_added :: "dict \<Rightarrow> client \<Rightarrow> outcome" where
  "handle_output_item_added event s =
     (case get_or event ''item'' (JObj []) of
        JObj item \<Rightarrow>
          (if get_or item ''type'' JNull = JStr ''function_call''
           then (None, s\<lparr>function_call := Some item, function_call_args := []\<rparr>)
           else (None, s))
      | _ \<Rightarrow> (Some AttributeError, s))"

text \<open>\<^verbatim>\<open>self.function_call_args += event.get("delta", "")\<close>: only a \<^verbatim>\<open>str\<close> can be added.\<close>

definition handle_function_call_arguments_delta :: "dict \<Rightarrow> client \<Rightarrow> outcome" where
  "handle_function_call_arguments_delta event s =
     (case get_or event ''delta'' (JStr []) of
        JStr delta \<Rightarrow> (None, s\<lparr>function_call_args := function_call_args s @ delta\<rparr>)
      | _ \<Rightarrow> (Some TypeError, s))"

text \<open>
  \<^verbatim>\<open>if self.function_call:\<close> holds for a dict that is not empty. The arguments are
  \<^verbatim>\<open>json.loads(self.function_call_args) if self.function_call_args else {}\<close>, and \<^verbatim>\<open>{}\<close> on
  \<^verbatim>\<open>JSONDecodeError\<close>.
\<close>

definition decode_args :: "env \<Rightarrow> string \<Rightarrow> json" where
  "decode_args env text =
     (if text \<noteq> [] then (case loads env text of Some v \<Rightarrow> v | None \<Rightarrow> JObj [])
      else JObj [])"

definition handle_function_call_arguments_done ::
  "env \<Rightarrow> (string \<times> tool) list \<Rightarrow> dict \<Rightarrow> client \<Rightarrow> outcome" where
  "handle_function_call_arguments_done env fm event s =
     (case function_call s of
        None \<Rightarrow> (None, s)
      | Some fc \<Rightarrow>
          if fc = [] then (None, s)
          else
            (let function_name = get_or fc ''name'' JNull;
                 call_id = get_or fc ''call_id'' JNull;
                 s1 = emit [LogInfo (''Function call: '' @ py_str env function_name @
                                     '' with args: '' @ function_call_args s)] s;
                 args = decode_args env (function_call_args s)
             in execute_function_call env fm function_name call_id args s1))"

definition handle_response_text_delta :: "dict \<Rightarrow> client \<Rightarrow> outcome" where
  "handle_response_text_delta event s =
     (case get_or event ''delta'' (JStr []) of
        JStr delta \<Rightarrow>
          (None, emit [Print (''Assistant: '' @ delta)]
                   (s\<lparr>assistant_reply := assistant_reply s @ delta\<rparr>))
      | _ \<Rightarrow> (Some TypeError, s))"

text \<open>
  \<^verbatim>\<open>self.audio_chunks.append(base64.b64decode(event["delta"]))\<close>: the subscript raises
  \<^verbatim>\<open>KeyError\<close> on a missing key, and \<^verbatim>\<open>b64decode\<close> takes a \<^verbatim>\<open>str\<close> only.
\<close>

definition handle_response_audio_delta :: "env \<Rightarrow> dict \<Rightarrow> client \<Rightarrow> outcome" where
  "handle_response_audio_delta env event s =
     (case map_of event ''delta'' of
        None \<Rightarrow> (Some (KeyError ''delta''), s)
      | Some (JStr delta) \<Rightarrow>
          (case b64decode env delta of
             None \<Rightarrow> (Some Base64Error, s)
           | Some chunk \<Rightarrow> (None, s\<lparr>audio_chunks := audio_chunks s @ [chunk]\<rparr>))
      | Some _ \<Rightarrow> (Some TypeError, s))"

text \<open>
  \<^verbatim>\<open>play_audio_with_silence_buffer\<close>: the silence is
  \<^verbatim>\<open>int(RATE * SILENCE_DURATION) * CHANNELS * 2\<close> zero bytes.
\<close>

definition silence_samples :: nat where
  "silence_samples = nat \<lfloor>of_nat RATE * SILENCE_DURATION\<rfloor> * CHANNELS * 2"

definition play_audio_with_silence_buffer :: "bytes \<Rightarrow> client \<Rightarrow> client" where
  "play_audio_with_silence_buffer audio_data s =
     emit [PlaybackOpen, PlaybackWrite audio_data, PlaybackWrite (replicate silence_samples 0),
           Sleep (1 / 2), PlaybackStop, PlaybackClose, PlaybackTerminate,
           LogDebug ''Agent completed audio playback''] s"

definition handle_response_done :: "env \<Rightarrow> time \<Rightarrow> dict \<Rightarrow> client \<Rightarrow> outcome" where
  "handle_response_done env now event s =
     (let s1 = (case response_start_time s of
                  Some t0 \<Rightarrow>
                    (emit [LogRuntime ''realtime_api_response'' (now - t0)] s)
                      \<lparr>response_start_time := None\<rparr>
                | None \<Rightarrow> s);
          s2 = emit [LogInfo ''Assistant response complete.''] s1;
          s3 = (if audio_chunks s2 \<noteq> []
                then (let audio_data = concat (audio_chunks s2);
                          s' = emit [LogInfo (''Sending '' @
                                       py_str env (JNum (of_nat (length audio_data))) @
                                       '' bytes of audio data to self.play_audio_with_silence_buffer()'')]
                                 s2
                      in emit [LogInfo ''Finished self.play_audio_with_silence_buffer()'']
                           (play_audio_with_silence_buffer audio_data s'))
                else s2);
          s4 = emit [LogInfo ''Calling stop_receiving()'']
                 (s3\<lparr>assistant_reply := [], audio_chunks := []\<rparr>)
      in (None, s4\<lparr>microphone := stop_receiving (microphone s4)\<rparr>))"

text \<open>
  \<^verbatim>\<open>error_message = event.get("error", {}).get("message", "")\<close>, then the two
  \<^verbatim>\<open>in\<close> tests in the order of the \<^verbatim>\<open>if\<close>/\<^verbatim>\<open>elif\<close>.
\<close>

definition handle_error :: "env \<Rightarrow> dict \<Rightarrow> client \<Rightarrow> outcome" where
  "handle_error env event s =
     (case get_or event ''error'' (JObj []) of
        JObj err \<Rightarrow>
          (let error_message = get_or err ''message'' (JStr []);
               s1 = emit [LogError (''Error: '' @ py_str env error_message)] s
           in case py_in ''buffer is empty'' error_message of
                Inl e \<Rightarrow> (Some e, s1)
              | Inr True \<Rightarrow>
                  (None, emit [LogInfo ''Received 'buffer is empty' error, no audio data sent.''] s1)
              | Inr False \<Rightarrow>
                  (case py_in ''Conversation already has an active response'' error_message of
                     Inl e \<Rightarrow> (Some e, s1)
                   | Inr True \<Rightarrow>
                       (None,
                        (emit [LogInfo ''Received 'active response' error, adjusting response flow.''] s1)
                          \<lparr>response_in_progress := True\<rparr>)
                   | Inr False \<Rightarrow>
                       (None, emit [LogError (''Unhandled error: '' @ py_str env error_message)] s1)))
      | _ \<Rightarrow> (Some AttributeError, s))"

definition handle_speech_started :: "dict \<Rightarrow> client \<Rightarrow> outcome" where
  "handle_speech_started event s = (None, emit [LogInfo ''Speech detected, listening...''] s)"

definition handle_speech_stopped :: "env \<Rightarrow> time \<Rightarrow> dict \<Rightarrow> client \<Rightarrow> outcome" where
  "handle_speech_stopped env now event s =
     (let s1 = s\<lparr>microphone := stop_recording (microphone s)\<rparr>;
          s2 = emit [LogInfo ''Speech ended, processing...''] s1;
          s3 = s2\<lparr>response_start_time := Some now\<rparr>
      in (None, emit [WsSend (dumps env (JObj [(''type'', JStr INPUT_AUDIO_BUFFER_COMMIT)]))] s3))"

definition handle_rate_limits_updated :: "dict \<Rightarrow> client \<Rightarrow> outcome" where
  "handle_rate_limits_updated event s =
     (let s1 = s\<lparr>response_in_progress := False\<rparr>;
          s2 = s1\<lparr>microphone := (microphone s1)\<lparr>is_recording := True\<rparr>\<rparr>
      in (None, emit [LogInfo ''Resumed recording after rate_limits.updated''] s2))"

subsection \<open>Dispatch and the message loop\<close>

definition call_handler ::
  "env \<Rightarrow> (string \<times> tool) list \<Rightarrow> time \<Rightarrow> handler \<Rightarrow> dict \<Rightarrow> client \<Rightarrow> outcome" where
  "call_handler env fm now h event s =
     (case h of
        HandleResponseCreated \<Rightarrow> handle_response_created event s
      | HandleOutputItemAdded \<Rightarrow> handle_output_item_added event s
      | HandleFunctionCallArgumentsDelta \<Rightarrow> handle_function_call_arguments_delta event s
      | HandleFunctionCallArgumentsDone \<Rightarrow> handle_function_call_arguments_done env fm event s
      | HandleResponseTextDelta \<Rightarrow> handle_response_text_delta event s
      | HandleResponseAudioDelta \<Rightarrow> handle_response_audio_delta env event s
      | HandleResponseDone \<Rightarrow> handle_response_done env now event s
      | HandleError \<Rightarrow> handle_error env event s
      | HandleSpeechStarted \<Rightarrow> handle_speech_started event s
      | HandleSpeechStopped \<Rightarrow> handle_speech_stopped env now event s
      | HandleRateLimitsUpdated \<Rightarrow> handle_rate_limits_updated event s)"

text \<open>
  \<^verbatim>\<open>handle_event(self, event, websocket)\<close>: \<^verbatim>\<open>event.get("type")\<close> needs a dict; a handler
  is called with nothing around it; no handler gives a warning.
\<close>

definition handle_event ::
  "env \<Rightarrow> (string \<times> tool) list \<Rightarrow> time \<Rightarrow> json \<Rightarrow> client \<Rightarrow> outcome" where
  "handle_event env fm now event s =
     (case event of
        JObj d \<Rightarrow>
          (let event_type = get_or d ''type'' JNull
           in case get_handler (event_handlers s) event_type of
                Inl e \<Rightarrow> (Some e, s)
              | Inr (Some h) \<Rightarrow> call_handler env fm now h d s
              | Inr None \<Rightarrow>
                  (None, emit [LogWarning (''Unhandled event type: '' @ py_str env event_type)] s))
      | _ \<Rightarrow> (Some AttributeError, s))"

text \<open>
  \<^verbatim>\<open>process_ws_messages\<close>: what \<^verbatim>\<open>websocket.recv()\<close> gives is an input, a message or the
  exception it raised (\<^verbatim>\<open>ConnectionClosed\<close> when the connection is gone), paired with
  the clock reading while it is handled. \<open>ws_iteration\<close> is one pass through the body of
  the \<^verbatim>\<open>while True\<close>: the \<^verbatim>\<open>try\<close> spans all of it and catches
  \<^verbatim>\<open>websockets.ConnectionClosed\<close> only. After the inputs it was given, the loop has
  ended by \<^verbatim>\<open>break\<close>, has raised, or waits for the next input.
\<close>

datatype recv = Message string | RecvRaised py_error

datatype loop_status = AwaitingMessage | LoopEnded | LoopRaised py_error

definition ws_iteration ::
  "env \<Rightarrow> (string \<times> tool) list \<Rightarrow> time \<times> recv \<Rightarrow> client \<Rightarrow> loop_status \<times> client" where
  "ws_iteration env fm x s =
     (let r = (case snd x of
                 RecvRaised e \<Rightarrow> (Some e, s)
               | Message message \<Rightarrow>
                   (case loads env message of
                      None \<Rightarrow> (Some JSONDecodeError, s)
                    | Some event \<Rightarrow>
                        and_then (log_ws_event ''Incoming'' event s)
                          (handle_event env fm (fst x) event)))
      in case r of
           (None, s') \<Rightarrow> (AwaitingMessage, s')
         | (Some e, s') \<Rightarrow>
             if is_connection_closed e
             then (LoopEnded, emit [LogWarning ''WebSocket connection lost.''] s')
             else (LoopRaised e, s'))"

fun process_ws_messages ::
  "env \<Rightarrow> (string \<times> tool) list \<Rightarrow> (time \<times> recv) list \<Rightarrow> client \<Rightarrow> loop_status \<times> client" where
  "process_ws_messages env fm [] s = (AwaitingMessage, s)"
| "process_ws_messages env fm (x # xs) s =
     (case ws_iteration env fm x s of
        (AwaitingMessage, s') \<Rightarrow> process_ws_messages env fm xs s'
      | (LoopEnded, s') \<Rightarrow> (LoopEnded, s')
      | (LoopRaised e, s') \<Rightarrow> (LoopRaised e, s'))"

subsection \<open>Session set-up and the outbound audio loop\<close>

definition initialize_session :: "env \<Rightarrow> client \<Rightarrow> outcome" where
  "initialize_session env s =
     (let session_update =
            JObj [(''type'', JStr SESSION_UPDATE),
                  (''session'',
                   JObj [(''modalities'', JArr [JStr ''text'', JStr ''audio'']),
                         (''instructions'', JStr BASE_INSTRUCTIONS),
                         (''voice'', JStr OPEN_AI_VOICE),
                         (''input_audio_format'', JStr ''pcm16''),
                         (''output_audio_format'', JStr ''pcm16''),
                         (''turn_detection'',
                          JObj [(''type'', JStr ''server_vad''),
                                (''threshold'', JNum OPENAI_SILENCE_THRESHOLD),
                                (''prefix_padding_ms'', JNum OPENAI_PREFIX_PADDING_MS),
                                (''silence_duration_ms'', JNum OPENAI_SILENCE_DURATION_MS)]),
                         (''tools'', tools s)])]
      in and_then (log_ws_event ''Outgoing'' session_update s)
           (\<lambda>s. (None, emit [WsSend (dumps env session_update)] s)))"

definition send_initial_prompts :: "env \<Rightarrow> string list \<Rightarrow> client \<Rightarrow> outcome" where
  "send_initial_prompts env ps s =
     (let s1 = emit [LogInfo (''Sending '' @ py_str env (JNum (of_nat (length ps))) @
                              '' prompts: '' @ py_str env (JArr (map JStr ps)))] s;
          content = map (\<lambda>prompt. JObj [(''type'', JStr ''input_text''), (''text'', JStr prompt)]) ps;
          event = JObj [(''type'', JStr CONVERSATION_ITEM_CREATE),
                        (''item'', JObj [(''type'', JStr ''message''), (''role'', JStr ''user''),
                                         (''content'', JArr content)])];
          response_create_event = JObj [(''type'', JStr RESPONSE_CREATE)]
      in and_then (log_ws_event ''Outgoing'' event s1) (\<lambda>s.
         and_then (log_ws_event ''Outgoing'' response_create_event
                     (emit [WsSend (dumps env event)] s)) (\<lambda>s.
         (None, emit [WsSend (dumps env response_create_event)] s))))"

text \<open>
  One pass through the body of the \<^verbatim>\<open>while\<close> loop of \<^verbatim>\<open>send_user_audio\<close>.
  \<open>send_error\<close> is the exception \<^verbatim>\<open>websocket.send\<close> raises if this pass calls it (on a
  lost connection), \<open>None\<close> if the call returns.
\<close>

definition send_user_audio_iteration :: "env \<Rightarrow> py_error option \<Rightarrow> client \<Rightarrow> outcome" where
  "send_user_audio_iteration env send_error s =
     (let s1 = emit [Sleep (1 / 10)] s
      in if \<not> is_receiving (microphone s1)
         then (case get_audio_data (microphone s1) of
                 (audio_chunk, m') \<Rightarrow>
                   (let s2 = s1\<lparr>microphone := m'\<rparr>
                    in case audio_chunk of
                         None \<Rightarrow> (None, s2)
                       | Some chunk \<Rightarrow>
                           if length chunk > 0
                           then (let encoded_audio = b64encode env chunk
                                 in if encoded_audio \<noteq> []
                                    then (let audio_event =
                                                JObj [(''type'', JStr INPUT_AUDIO_BUFFER_APPEND),
                                                      (''audio'', JStr encoded_audio)]
                                          in and_then (log_ws_event ''Outgoing'' audio_event s2)
                                               (\<lambda>s. case send_error of
                                                      None \<Rightarrow>
                                                        (None, emit [WsSend (dumps env audio_event)] s)
                                                    | Some e \<Rightarrow> (Some e, s)))
                                    else (None, emit [LogDebug ''No audio data is available to send''] s2))
                           else (None, s2)))
         else (None, emit [Sleep (1 / 10)] s1))"

text \<open>
  While the connection is active three parties take turns: the task running
  \<^verbatim>\<open>process_ws_messages\<close> (\<open>Inbound\<close>: one pass of its loop, if it still runs), the device
  callback (\<open>Capture\<close>) and the loop of \<^verbatim>\<open>send_user_audio\<close> (\<open>Poll\<close>: one pass, with the
  exception its send would raise; \<open>Interrupt\<close>: a \<^verbatim>\<open>KeyboardInterrupt\<close> arrives while it
  sleeps). The order is the scheduler's and is an input. The loop of \<^verbatim>\<open>send_user_audio\<close>
  goes on until one of its passes raises.
\<close>

datatype sched = Inbound "time \<times> recv" | Capture bytes | Poll "py_error option" | Interrupt

definition resume_ws ::
  "env \<Rightarrow> (string \<times> tool) list \<Rightarrow> (time \<times> recv) list \<Rightarrow> loop_status \<times> client
     \<Rightarrow> loop_status \<times> client" where
  "resume_ws env fm xs r =
     (case r of
        (AwaitingMessage, s) \<Rightarrow> process_ws_messages env fm xs s
      | (st, s) \<Rightarrow> (st, s))"

fun active_steps ::
  "env \<Rightarrow> (string \<times> tool) list \<Rightarrow> sched list \<Rightarrow> loop_status \<times> client
     \<Rightarrow> py_error option \<times> loop_status \<times> client" where
  "active_steps env fm [] (st, s) = (None, st, s)"
| "active_steps env fm (Inbound x # steps) (st, s) =
     active_steps env fm steps (resume_ws env fm [x] (st, s))"
| "active_steps env fm (Capture f # steps) (st, s) =
     active_steps env fm steps (st, s\<lparr>microphone := callback f (microphone s)\<rparr>)"
| "active_steps env fm (Poll send_error # steps) (st, s) =
     (case send_user_audio_iteration env send_error s of
        (None, s') \<Rightarrow> active_steps env fm steps (st, s')
      | (Some e, s') \<Rightarrow> (Some e, st, s'))"
| "active_steps env fm (Interrupt # steps) (st, s) = (Some KeyboardInterrupt, st, s)"

text \<open>
  One pass through the \<^verbatim>\<open>while True\<close> loop of \<^verbatim>\<open>run\<close> is scripted by: the exception
  \<^verbatim>\<open>websockets.connect\<close> raises, if any; the schedule of the active phase; and what the
  message task receives while \<^verbatim>\<open>run\<close> awaits it.
\<close>

record attempt =
  connect_error :: "py_error option"
  active :: "sched list"
  closing :: "(time \<times> recv) list"

datatype body_outcome = Completed | Raised py_error | Pending

text \<open>The \<^verbatim>\<open>finally\<close> block of \<^verbatim>\<open>send_user_audio\<close>.\<close>

definition send_user_audio_finally :: "client \<Rightarrow> client" where
  "send_user_audio_finally s =
     (let s1 = s\<lparr>exit_event := True\<rparr>;
          s2 = s1\<lparr>microphone := stop_recording (microphone s1)\<rparr>;
          s3 = s2\<lparr>microphone := close (microphone s2)\<rparr>
      in emit [WsClose] s3)"

text \<open>
  \<^verbatim>\<open>send_user_audio\<close> next to the message task, whose status it carries along. With the
  exit flag already set the loop body never runs. A \<^verbatim>\<open>KeyboardInterrupt\<close> is caught and
  logged, any other exception leaves the method after the \<^verbatim>\<open>finally\<close> block; when the
  schedule ends without an exception the loop is still running.
\<close>

definition send_user_audio ::
  "env \<Rightarrow> (string \<times> tool) list \<Rightarrow> attempt \<Rightarrow> loop_status \<times> client
     \<Rightarrow> body_outcome \<times> loop_status \<times> client" where
  "send_user_audio env fm a r =
     (if exit_event (snd r) then (Completed, fst r, send_user_audio_finally (snd r))
      else
        (case active_steps env fm (active a) r of
           (Some KeyboardInterrupt, st, s) \<Rightarrow>
             (Completed, st,
              send_user_audio_finally
                (emit [LogInfo ''User terminated connection. Closing now.''] s))
         | (Some e, st, s) \<Rightarrow> (Raised e, st, send_user_audio_finally s)
         | (None, st, s) \<Rightarrow> (Pending, st, s)))"

definition mic_emoji :: string where
  "mic_emoji = [CHR 0xF0, CHR 0x9F, CHR 0x8E, CHR 0xA4]"

text \<open>
  The first part of the \<^verbatim>\<open>async with\<close> block of \<^verbatim>\<open>run\<close>, up to the call of
  \<^verbatim>\<open>send_user_audio\<close>: the session is configured and either the prompts are sent or
  recording starts (\<^verbatim>\<open>if self.prompts:\<close> holds for a list that is not empty). The first
  message is not an f-string in the source.
\<close>

definition connection_start :: "env \<Rightarrow> client \<Rightarrow> outcome" where
  "connection_start env s =
     and_then (initialize_session env (emit [LogInfo ''{ASSISTANT_NAME} is online.''] s)) (\<lambda>s.
       (let s1 = emit [LogInfo (ASSISTANT_NAME @
                   '' is listening. Begin the conversation whenever you'd like.'')] s
        in case prompts s1 of
             None \<Rightarrow>
               (None, emit [LogInfo (mic_emoji @ '' Recording started...'')]
                        (s1\<lparr>microphone := start_recording (microphone s1)\<rparr>))
           | Some ps \<Rightarrow>
               if ps \<noteq> [] then send_initial_prompts env ps s1
               else (None, emit [LogInfo (mic_emoji @ '' Recording started...'')]
                             (s1\<lparr>microphone := start_recording (microphone s1)\<rparr>))))"

text \<open>
  The body of the \<^verbatim>\<open>try\<close> in \<^verbatim>\<open>run\<close>: \<^verbatim>\<open>websockets.connect\<close> (\<open>open_connection\<close>), the
  set-up, \<^verbatim>\<open>send_user_audio\<close> next to the message task, then \<^verbatim>\<open>await ws_task\<close>. Leaving
  the \<^verbatim>\<open>async with\<close> block, normally or by an exception, closes the connection.
\<close>

definition open_connection :: "client \<Rightarrow> client" where
  "open_connection s =
     (let url = ''wss://api.openai.com/v1/realtime?model='' @ model s;
          headers = [(''Authorization'', JStr (''Bearer '' @ api_key s)),
                     (''OpenAI-Beta'', JStr ''realtime=v1'')]
      in emit [Connect url headers WS_CLOSE_TIMEOUT WS_PING_INTERVAL WS_PING_TIMEOUT] s)"

definition try_body ::
  "env \<Rightarrow> (string \<times> tool) list \<Rightarrow> attempt \<Rightarrow> client \<Rightarrow> body_outcome \<times> client" where
  "try_body env fm a s =
     (let s1 = open_connection s
      in case connect_error a of
           Some e \<Rightarrow> (Raised e, s1)
         | None \<Rightarrow>
             (case connection_start env s1 of
                (Some e, s2) \<Rightarrow> (Raised e, emit [WsClose] s2)
              | (None, s2) \<Rightarrow>
                  (case send_user_audio env fm a (AwaitingMessage, s2) of
                     (Raised e, st, s3) \<Rightarrow> (Raised e, emit [WsClose] s3)
                   | (Pending, st, s3) \<Rightarrow> (Pending, s3)
                   | (Completed, st, s3) \<Rightarrow>
                       (case resume_ws env fm (closing a) (st, s3) of
                          (AwaitingMessage, s4) \<Rightarrow> (Pending, s4)
                        | (LoopEnded, s4) \<Rightarrow> (Completed, emit [WsClose] s4)
                        | (LoopRaised e, s4) \<Rightarrow> (Raised e, emit [WsClose] s4)))))"

text \<open>The \<^verbatim>\<open>finally\<close> block of \<^verbatim>\<open>run\<close>.\<close>

definition run_finally :: "client \<Rightarrow> client" where
  "run_finally s =
     (let s1 = s\<lparr>microphone := stop_recording (microphone s)\<rparr>
      in s1\<lparr>microphone := close (microphone s1)\<rparr>)"

text \<open>
  \<^verbatim>\<open>run\<close>, one scripted attempt per pass of its loop. It has stopped (\<^verbatim>\<open>break\<close>), an
  exception that is not an \<^verbatim>\<open>Exception\<close> has left it, it is still inside an attempt, or
  it is about to connect again when the script ends.
\<close>

datatype run_status = Stopped | Propagated py_error | InAttempt | Connecting

text \<open>
  The \<^verbatim>\<open>except\<close> clause for a keep-alive timeout, \<^verbatim>\<open>log_warning(..)\<close>,
  \<^verbatim>\<open>await asyncio.sleep(1)\<close>, \<^verbatim>\<open>continue\<close>, followed by the \<^verbatim>\<open>finally\<close> block.
\<close>

definition before_reconnect :: "client \<Rightarrow> client" where
  "before_reconnect s =
     run_finally
       (emit [LogWarning
                ''WebSocket connection lost due to keepalive ping timeout. Reconnecting...'',
              Sleep 1] s)"

fun run ::
  "env \<Rightarrow> (string \<times> tool) list \<Rightarrow> attempt list \<Rightarrow> client \<Rightarrow> run_status \<times> client" where
  "run env fm [] s = (Connecting, s)"
| "run env fm (a # as) s =
     (case try_body env fm a s of
        (Completed, s1) \<Rightarrow> (Stopped, run_finally s1)
      | (Pending, s1) \<Rightarrow> (InAttempt, s1)
      | (Raised e, s1) \<Rightarrow>
          (case e of
             ConnectionClosedError m \<Rightarrow>
               if str_contains ''keepalive ping timeout'' (str_of_error env e)
               then run env fm as (before_reconnect s1)
               else (Stopped,
                     run_finally
                       (emit [LogError (''WebSocket connection closed unexpectedly: '' @
                                        str_of_error env e)] s1))
           | KeyboardInterrupt \<Rightarrow> (Propagated e, run_finally s1)
           | _ \<Rightarrow>
               (Stopped,
                run_finally
                  (emit [LogError (''An unexpected error occurred: '' @ str_of_error env e)] s1))))"


subsection \<open>Reading a trace\<close>

text \<open>The texts given to \<^verbatim>\<open>websocket.send\<close>, and the tool calls made, in order.\<close>

fun sent :: "effect list \<Rightarrow> string list" where
  "sent [] = []"
| "sent (WsSend text # es) = text # sent es"
| "sent (e # es) = sent es"


subsection \<open>Reading the inbound stream\<close>

text \<open>
  What an input of the message loop decodes to, the type of an event, whether an input is
  an output-item-added or arguments-done event, and the text an arguments-delta event
  carries (nothing for any other input).
\<close>

definition decoded :: "env \<Rightarrow> time \<times> recv \<Rightarrow> json option" where
  "decoded env x = (case snd x of Message message \<Rightarrow> loads env message | RecvRaised e \<Rightarrow> None)"

definition event_type :: "json \<Rightarrow> json" where
  "event_type event = (case event of JObj d \<Rightarrow> get_or d ''type'' JNull | _ \<Rightarrow> JNull)"

definition resets_call :: "env \<Rightarrow> time \<times> recv \<Rightarrow> bool" where
  "resets_call env x =
     (case decoded env x of
        None \<Rightarrow> False
      | Some event \<Rightarrow>
          event_type event = JStr RESPONSE_OUTPUT_ITEM_ADDED
          \<or> event_type event = JStr RESPONSE_FUNCTION_CALL_ARGUMENTS_DONE)"

definition event_delta :: "json \<Rightarrow> string" where
  "event_delta event =
     (case event of
        JObj d \<Rightarrow>
          if get_or d ''type'' JNull = JStr RESPONSE_FUNCTION_CALL_ARGUMENTS_DELTA
          then (case get_or d ''delta'' (JStr []) of JStr text \<Rightarrow> text | _ \<Rightarrow> [])
          else []
      | _ \<Rightarrow> [])"

definition delta_text :: "env \<Rightarrow> time \<times> recv \<Rightarrow> string" where
  "delta_text env x = (case decoded env x of Some event \<Rightarrow> event_delta event | None \<Rightarrow> [])"

definition is_arguments_delta :: "env \<Rightarrow> time \<times> recv \<Rightarrow> bool" where
  "is_arguments_delta env x =
     (case decoded env x of
        Some (JObj d) \<Rightarrow>
          get_or d ''type'' JNull = JStr RESPONSE_FUNCTION_CALL_ARGUMENTS_DELTA
          \<and> (case get_or d ''delta'' (JStr []) of JStr text \<Rightarrow> True | _ \<Rightarrow> False)
      | _ \<Rightarrow> False)"

section \<open>A concrete runtime and client for the examples\<close>

text \<open>
  The examples below run the model on a client built by the constructor, in a runtime
  whose \<^verbatim>\<open>json.loads\<close> knows the messages of this table and rejects every other text.
\<close>

definition example_messages :: "(string \<times> json) list" where
  \<open>example_messages =
     [(''{"type": "response.created"}'', JObj [(''type'', JStr ''response.created'')]),
      (''{"type": "rate_limits.updated"}'', JObj [(''type'', JStr ''rate_limits.updated'')]),
      (''{"type": "response.audio.delta"}'', JObj [(''type'', JStr ''response.audio.delta'')]),
      (''{"type": "response.text.delta", "delta": "Hi"}'',
         JObj [(''type'', JStr ''response.text.delta''), (''delta'', JStr ''Hi'')]),
      (''{"type": "response.output_item.added", "item": {"type": "function_call", "name": "get_current_time", "call_id": "call_1"}}'',
         JObj [(''type'', JStr ''response.output_item.added''),
               (''item'', JObj [(''type'', JStr ''function_call''),
                                (''name'', JStr ''get_current_time''),
                                (''call_id'', JStr ''call_1'')])]),
      (''{"type": "response.function_call_arguments.delta", "delta": "{"}'',
         JObj [(''type'', JStr ''response.function_call_arguments.delta''),
               (''delta'', JStr ''{'')]),
      (''{"type": "response.function_call_arguments.delta", "delta": "}"}'',
         JObj [(''type'', JStr ''response.function_call_arguments.delta''),
               (''delta'', JStr ''}'')]),
      (''{"type": "input_audio_buffer.speech_stopped"}'',
         JObj [(''type'', JStr ''input_audio_buffer.speech_stopped'')]),
      (''{"type": "error", "error": {"message": "Conversation already has an active response"}}'',
         JObj [(''type'', JStr ''error''),
               (''error'', JObj [(''message'',
                                  JStr ''Conversation already has an active response'')])]),
      (''{}'', JObj [])]\<close>

definition example_env :: env where
  "example_env =
     \<lparr>loads = map_of example_messages,
      dumps = (\<lambda>j. ''<json>''),
      b64decode = (\<lambda>s. Some []),
      b64encode = (\<lambda>b. ''AA==''),
      repr_text = (\<lambda>v. ''None''),
      exc_text = (\<lambda>e. ''error''),
      randint = 7,
      now_text = ''2024-01-01 00:00:00'',
      call_error = (\<lambda>name args. name @ ''() does not take these arguments'')\<rparr>"

definition example_client :: client where
  "example_client = the (RealtimeAPI_init None None None (Some ''sk-test''))"

text \<open>A client with a pending call of \<^verbatim>\<open>get_current_time\<close> whose argument text is \<^verbatim>\<open>{}\<close>.\<close>

definition example_call :: dict where
  "example_call = [(''type'', JStr ''function_call''), (''name'', JStr ''get_current_time''),
                   (''call_id'', JStr ''call_1'')]"




definition example_faulty :: attempt where
  \<open>example_faulty =
     \<lparr>connect_error = None,
      active = [Inbound (0, Message ''{"type": "response.audio.delta"}''),
                Inbound (1, Message ''{"type": "response.created"}''),
                Interrupt],
      closing = []\<rparr>\<close>

section \<open>The capture queue\<close>

lemma drain_loop_concat: "drain_loop q data = data @ concat q"
  by (induction q arbitrary: data) simp_all

lemma foldl_callback_open:
  "is_recording m \<Longrightarrow> \<not> is_receiving m \<Longrightarrow>
   foldl (\<lambda>m f. callback f m) m fs = m\<lparr>queue := queue m @ fs\<rparr>"
  by (induction fs arbitrary: m) (simp_all add: callback_def)

lemma drained_get_audio_data:
  "drained (fst (get_audio_data m)) = concat (queue m)"
  by (simp add: get_audio_data_def drained_def drain_loop_concat Let_def)

lemma run_mic_delivers:
  "concat (map drained (fst (run_mic ops m))) @ concat (queue (snd (run_mic ops m)))
   = concat (queue m) @ concat (spec_admitted ops (is_recording m) (is_receiving m))"
proof (induction ops m rule: run_mic.induct)
  case (3 ops m)
  obtain d m' where g: "get_audio_data m = (d, m')"
    by (cases "get_audio_data m")
  obtain ds m'' where r: "run_mic ops m' = (ds, m'')"
    by (cases "run_mic ops m'")
  have m': "m' = m\<lparr>queue := []\<rparr>"
    using g by (simp add: get_audio_data_def Let_def)
  have d: "drained d = concat (queue m)"
    using drained_get_audio_data [of m] g by simp
  from "3.IH" [OF g [symmetric]] r m'
  have "concat (map drained ds) @ concat (queue m'')
        = concat (spec_admitted ops (is_recording m) (is_receiving m))"
    by simp
  then show ?case
    using g r d by simp
qed (simp_all add: callback_def start_recording_def stop_recording_def
       start_receiving_def stop_receiving_def)

text \<open>
  C7. Frames that arrive while recording is true and receiving is false are handed over
  by the next drain as their concatenation in arrival order (an empty concatenation is
  reported by the no-data sentinel \<open>None\<close>, as \<^verbatim>\<open>data if data else None\<close> does), and a
  drain that follows with no new frame returns the sentinel. A frame that arrives while
  receiving is true leaves the microphone exactly as it was, so nothing later can observe
  it. For every interleaving of frames, drains and gate changes, the drains together with
  what is still queued hold exactly the frames that arrived with the gates open, in
  arrival order.
\<close>

theorem capture_queue_drain:
  "(is_recording m \<and> \<not> is_receiving m \<and> queue m = [] \<longrightarrow>
      (let m1 = foldl (\<lambda>m f. callback f m) m fs;
           (d1, m2) = get_audio_data m1;
           (d2, m3) = get_audio_data m2
       in d1 = (if concat fs = [] then None else Some (concat fs))
          \<and> queue m2 = [] \<and> d2 = None \<and> queue m3 = []))
   \<and> (is_receiving m' \<longrightarrow> callback f m' = m')
   \<and> concat (map drained (fst (run_mic ops m''))) @ concat (queue (snd (run_mic ops m'')))
       = concat (queue m'') @ concat (spec_admitted ops (is_recording m'') (is_receiving m''))"
proof (intro conjI impI)
  assume a: "is_recording m \<and> \<not> is_receiving m \<and> queue m = []"
  then have "foldl (\<lambda>m f. callback f m) m fs = m\<lparr>queue := fs\<rparr>"
    using foldl_callback_open [of m fs] by simp
  then show "let m1 = foldl (\<lambda>m f. callback f m) m fs;
           (d1, m2) = get_audio_data m1;
           (d2, m3) = get_audio_data m2
       in d1 = (if concat fs = [] then None else Some (concat fs))
          \<and> queue m2 = [] \<and> d2 = None \<and> queue m3 = []"
    by (simp add: get_audio_data_def Let_def drain_loop_concat)
next
  assume "is_receiving m'"
  then show "callback f m' = m'"
    by (simp add: callback_def)
next
  show "concat (map drained (fst (run_mic ops m''))) @ concat (queue (snd (run_mic ops m'')))
       = concat (queue m'') @ concat (spec_admitted ops (is_recording m'') (is_receiving m''))"
    by (rule run_mic_delivers)
qed

theorem capture_queue_drain_witness:
  "is_recording (start_recording init_microphone)
   \<and> \<not> is_receiving (start_recording init_microphone)
   \<and> queue (start_recording init_microphone) = []
   \<and> fst (get_audio_data (foldl (\<lambda>m f. callback f m) (start_recording init_microphone)
             ([1, 2] # [] # [3] # []))) = Some [1, 2, 3]
   \<and> fst (get_audio_data (snd (get_audio_data (foldl (\<lambda>m f. callback f m)
             (start_recording init_microphone) ([1, 2] # [] # [3] # []))))) = None
   \<and> is_receiving (start_receiving init_microphone)
   \<and> callback [9] (start_receiving init_microphone) = start_receiving init_microphone
   \<and> fst (run_mic [StartRecording, Frame [1, 2], StartReceiving, Frame [9], Drain,
                    StopReceiving, SetRecording, Frame [3], Drain] init_microphone)
       = [Some [1, 2], Some [3]]"
  using capture_queue_drain [of "start_recording init_microphone" "([1, 2] # [] # [3] # [])"
          "start_receiving init_microphone" "[9]"
          "[StartRecording, Frame [1, 2], StartReceiving, Frame [9], Drain,
            StopReceiving, SetRecording, Frame [3], Drain]" init_microphone]
  by (simp add: start_recording_def start_receiving_def stop_receiving_def init_microphone_def
        callback_def get_audio_data_def Let_def split: prod.splits)

section \<open>Dispatch\<close>

lemmas event_names =
  RESPONSE_CREATED_def RESPONSE_DONE_def RESPONSE_TEXT_DELTA_def RESPONSE_AUDIO_DELTA_def
  RESPONSE_OUTPUT_ITEM_ADDED_def RESPONSE_FUNCTION_CALL_ARGUMENTS_DELTA_def
  RESPONSE_FUNCTION_CALL_ARGUMENTS_DONE_def INPUT_AUDIO_BUFFER_SPEECH_STARTED_def
  INPUT_AUDIO_BUFFER_SPEECH_STOPPED_def RATE_LIMITS_UPDATED_def ERROR_def

lemma registered_handlers:
  "map_of (register_event_handlers []) t =
     (if t = ''rate_limits.updated'' then Some HandleRateLimitsUpdated
      else if t = ''input_audio_buffer.speech_stopped'' then Some HandleSpeechStopped
      else if t = ''input_audio_buffer.speech_started'' then Some HandleSpeechStarted
      else if t = ''error'' then Some HandleError
      else if t = ''response.done'' then Some HandleResponseDone
      else if t = ''response.audio.delta'' then Some HandleResponseAudioDelta
      else if t = ''response.text.delta'' then Some HandleResponseTextDelta
      else if t = ''response.function_call_arguments.done'' then Some HandleFunctionCallArgumentsDone
      else if t = ''response.function_call_arguments.delta'' then Some HandleFunctionCallArgumentsDelta
      else if t = ''response.output_item.added'' then Some HandleOutputItemAdded
      else if t = ''response.created'' then Some HandleResponseCreated
      else None)"
  by (simp add: register_event_handlers_def register_def event_names)

lemma example_client_handlers: "event_handlers example_client = register_event_handlers []"
  by (simp add: example_client_def RealtimeAPI_init_def)

lemma handle_event_registered:
  assumes "event_handlers s = register_event_handlers []"
    and "get_or d ''type'' JNull = JStr t"
  shows "handle_event env fm now (JObj d) s =
     (case map_of (register_event_handlers []) t of
        Some h \<Rightarrow> call_handler env fm now h d s
      | None \<Rightarrow> (None, emit [LogWarning (''Unhandled event type: '' @ t)] s))"
  using assms
  by (simp add: handle_event_def get_handler_def unhashable_def py_str_def split: option.splits)

lemma handle_event_response_created:
  assumes "event_handlers s = register_event_handlers []"
    and "get_or d ''type'' JNull = JStr RESPONSE_CREATED"
  shows "handle_event env fm now (JObj d) s = handle_response_created d s"
  using handle_event_registered [of s d "''response.created''" env fm now] assms
  by (simp add: registered_handlers event_names call_handler_def)

lemma handle_event_rate_limits_updated:
  assumes "event_handlers s = register_event_handlers []"
    and "get_or d ''type'' JNull = JStr RATE_LIMITS_UPDATED"
  shows "handle_event env fm now (JObj d) s = handle_rate_limits_updated d s"
  using handle_event_registered [of s d "''rate_limits.updated''" env fm now] assms
  by (simp add: registered_handlers event_names call_handler_def)

lemma handle_event_response_done:
  assumes "event_handlers s = register_event_handlers []"
    and "get_or d ''type'' JNull = JStr RESPONSE_DONE"
  shows "handle_event env fm now (JObj d) s = handle_response_done env now d s"
  using handle_event_registered [of s d "''response.done''" env fm now] assms
  by (simp add: registered_handlers event_names call_handler_def)

section \<open>Turn arbitration\<close>

text \<open>
  C1, as the code has it. A frame changes the queue only when recording is true and
  receiving is false, and a frame that arrives while receiving is true leaves the
  microphone as it was. Handling \<^verbatim>\<open>response.created\<close> returns normally with recording
  false and receiving true; handling \<^verbatim>\<open>response.done\<close> returns normally with receiving
  false; handling \<^verbatim>\<open>rate_limits.updated\<close> returns normally with recording true and
  receiving as it was.
\<close>

theorem capture_gated_by_receiving:
  "(queue (callback f m) \<noteq> queue m \<longrightarrow> is_recording m \<and> \<not> is_receiving m)
   \<and> (is_receiving m' \<longrightarrow> callback f m' = m')
   \<and> (event_handlers s = register_event_handlers []
        \<and> get_or d ''type'' JNull = JStr RESPONSE_CREATED \<longrightarrow>
        fst (handle_event env fm now (JObj d) s) = None
        \<and> \<not> is_recording (microphone (snd (handle_event env fm now (JObj d) s)))
        \<and> is_receiving (microphone (snd (handle_event env fm now (JObj d) s))))
   \<and> (event_handlers s = register_event_handlers []
        \<and> get_or d' ''type'' JNull = JStr RESPONSE_DONE \<longrightarrow>
        fst (handle_event env fm now (JObj d') s) = None
        \<and> \<not> is_receiving (microphone (snd (handle_event env fm now (JObj d') s))))
   \<and> (event_handlers s = register_event_handlers []
        \<and> get_or d'' ''type'' JNull = JStr RATE_LIMITS_UPDATED \<longrightarrow>
        fst (handle_event env fm now (JObj d'') s) = None
        \<and> is_recording (microphone (snd (handle_event env fm now (JObj d'') s)))
        \<and> is_receiving (microphone (snd (handle_event env fm now (JObj d'') s)))
            = is_receiving (microphone s))"
proof (intro conjI impI)
  show "queue (callback f m) \<noteq> queue m \<Longrightarrow> is_recording m"
    by (simp add: callback_def split: if_splits)
  show "queue (callback f m) \<noteq> queue m \<Longrightarrow> \<not> is_receiving m"
    by (simp add: callback_def split: if_splits)
  show "is_receiving m' \<Longrightarrow> callback f m' = m'"
    by (simp add: callback_def)
next
  assume a: "event_handlers s = register_event_handlers []
        \<and> get_or d ''type'' JNull = JStr RESPONSE_CREATED"
  then have e: "handle_event env fm now (JObj d) s = handle_response_created d s"
    by (simp add: handle_event_response_created)
  show "fst (handle_event env fm now (JObj d) s) = None"
    "\<not> is_recording (microphone (snd (handle_event env fm now (JObj d) s)))"
    "is_receiving (microphone (snd (handle_event env fm now (JObj d) s)))"
    unfolding e by (simp_all add: handle_response_created_def start_receiving_def)
next
  assume a: "event_handlers s = register_event_handlers []
        \<and> get_or d' ''type'' JNull = JStr RESPONSE_DONE"
  then have e: "handle_event env fm now (JObj d') s = handle_response_done env now d' s"
    by (simp add: handle_event_response_done)
  show "fst (handle_event env fm now (JObj d') s) = None"
    "\<not> is_receiving (microphone (snd (handle_event env fm now (JObj d') s)))"
    unfolding e by (simp_all add: handle_response_done_def stop_receiving_def Let_def emit_def)
next
  assume a: "event_handlers s = register_event_handlers []
        \<and> get_or d'' ''type'' JNull = JStr RATE_LIMITS_UPDATED"
  then have e: "handle_event env fm now (JObj d'') s = handle_rate_limits_updated d'' s"
    by (simp add: handle_event_rate_limits_updated)
  show "fst (handle_event env fm now (JObj d'') s) = None"
    "is_recording (microphone (snd (handle_event env fm now (JObj d'') s)))"
    "is_receiving (microphone (snd (handle_event env fm now (JObj d'') s)))
       = is_receiving (microphone s)"
    unfolding e by (simp_all add: handle_rate_limits_updated_def Let_def emit_def)
qed

theorem capture_gated_by_receiving_witness:
  "queue (callback [1] (start_recording init_microphone)) \<noteq> queue (start_recording init_microphone)
   \<and> is_recording (start_recording init_microphone)
   \<and> \<not> is_receiving (start_recording init_microphone)
   \<and> is_receiving (start_receiving init_microphone)
   \<and> callback [1] (start_receiving init_microphone) = start_receiving init_microphone
   \<and> event_handlers example_client = register_event_handlers []
   \<and> get_or [(''type'', JStr ''response.created'')] ''type'' JNull = JStr RESPONSE_CREATED
   \<and> get_or [(''type'', JStr ''response.done'')] ''type'' JNull = JStr RESPONSE_DONE
   \<and> get_or [(''type'', JStr ''rate_limits.updated'')] ''type'' JNull = JStr RATE_LIMITS_UPDATED
   \<and> is_receiving (microphone (snd (handle_event example_env (function_map example_env) 0
         (JObj [(''type'', JStr ''response.created'')]) example_client)))
   \<and> \<not> is_receiving (microphone (snd (handle_event example_env (function_map example_env) 0
         (JObj [(''type'', JStr ''response.done'')]) example_client)))
   \<and> is_recording (microphone (snd (handle_event example_env (function_map example_env) 0
         (JObj [(''type'', JStr ''rate_limits.updated'')]) example_client)))"
  using capture_gated_by_receiving
          [of "[1]" "start_recording init_microphone" "start_receiving init_microphone"
              example_client "[(''type'', JStr ''response.created'')]"
              example_env "function_map example_env" 0
              "[(''type'', JStr ''response.done'')]"
              "[(''type'', JStr ''rate_limits.updated'')]"]
  by (simp add: example_client_handlers get_or_def event_names callback_def
        start_recording_def start_receiving_def init_microphone_def)

text \<open>
  C1 as stated fails: after \<^verbatim>\<open>response.created\<close> and then \<^verbatim>\<open>rate_limits.updated\<close>, handled
  by the message loop from the client the constructor builds, both flags are true.
\<close>

theorem recording_and_receiving_counterexample:
  \<open>is_recording (microphone (snd (process_ws_messages example_env (function_map example_env)
       [(0, Message ''{"type": "response.created"}''),
        (0, Message ''{"type": "rate_limits.updated"}'')] example_client)))
   \<and> is_receiving (microphone (snd (process_ws_messages example_env (function_map example_env)
       [(0, Message ''{"type": "response.created"}''),
        (0, Message ''{"type": "rate_limits.updated"}'')] example_client)))\<close>
  by (simp add: ws_iteration_def example_env_def example_messages_def log_ws_event_def
        get_or_def unhashable_def and_then_def emit_def handle_event_def get_handler_def
        example_client_def RealtimeAPI_init_def register_event_handlers_def register_def
        event_names call_handler_def handle_response_created_def handle_rate_limits_updated_def
        start_receiving_def Let_def)

section \<open>Error events\<close>

text \<open>
  C8. For an \<^verbatim>\<open>error\<close> event whose message is a text: if it contains
  \<^verbatim>\<open>buffer is empty\<close> only the trace grows, by two diagnostics; otherwise, if it contains
  \<^verbatim>\<open>Conversation already has an active response\<close>, \<open>response_in_progress\<close> becomes true
  and the trace grows by two diagnostics; otherwise only the trace grows, by two error
  diagnostics. In each case the handler returns normally and no other field changes. The
  tests are made in this order, as the \<^verbatim>\<open>if\<close>/\<^verbatim>\<open>elif\<close> chain does.
\<close>

theorem handle_error_by_message:
  assumes "get_or event ''error'' (JObj []) = JObj err"
    and "get_or err ''message'' (JStr []) = JStr msg"
  shows "handle_error env event s =
     (if str_contains ''buffer is empty'' msg
      then (None, s\<lparr>trace := trace s @
              [LogError (''Error: '' @ msg),
               LogInfo ''Received 'buffer is empty' error, no audio data sent.'']\<rparr>)
      else if str_contains ''Conversation already has an active response'' msg
      then (None, s\<lparr>response_in_progress := True,
              trace := trace s @
              [LogError (''Error: '' @ msg),
               LogInfo ''Received 'active response' error, adjusting response flow.'']\<rparr>)
      else (None, s\<lparr>trace := trace s @
              [LogError (''Error: '' @ msg), LogError (''Unhandled error: '' @ msg)]\<rparr>))"
  using assms by (simp add: handle_error_def py_in_def py_str_def emit_def)

theorem handle_error_by_message_witness:
  "get_or [(''type'', JStr ''error''),
           (''error'', JObj [(''message'', JStr ''commit failed: buffer is empty'')])]
     ''error'' (JObj []) = JObj [(''message'', JStr ''commit failed: buffer is empty'')]
   \<and> get_or [(''message'', JStr ''commit failed: buffer is empty'')] ''message'' (JStr [])
       = JStr ''commit failed: buffer is empty''
   \<and> handle_error example_env
         [(''type'', JStr ''error''),
          (''error'', JObj [(''message'', JStr ''commit failed: buffer is empty'')])]
         example_client
       = (None, example_client\<lparr>trace :=
            [LogError ''Error: commit failed: buffer is empty'',
             LogInfo ''Received 'buffer is empty' error, no audio data sent.'']\<rparr>)
   \<and> handle_error example_env
         [(''error'', JObj [(''message'', JStr ''Conversation already has an active response'')])]
         example_client
       = (None, example_client\<lparr>response_in_progress := True, trace :=
            [LogError ''Error: Conversation already has an active response'',
             LogInfo ''Received 'active response' error, adjusting response flow.'']\<rparr>)
   \<and> handle_error example_env [(''type'', JStr ''error'')] example_client
       = (None, example_client\<lparr>trace :=
            [LogError ''Error: '', LogError ''Unhandled error: '']\<rparr>)"
proof -
  have t: "trace example_client = []"
    by (simp add: example_client_def RealtimeAPI_init_def)
  have g: "get_or [(''type'', JStr ''error''),
                   (''error'', JObj [(''message'', JStr ''commit failed: buffer is empty'')])]
             ''error'' (JObj []) = JObj [(''message'', JStr ''commit failed: buffer is empty'')]"
    "get_or [(''message'', JStr ''commit failed: buffer is empty'')] ''message'' (JStr [])
       = JStr ''commit failed: buffer is empty''"
    "get_or [(''error'', JObj [(''message'', JStr ''Conversation already has an active response'')])]
       ''error'' (JObj [])
       = JObj [(''message'', JStr ''Conversation already has an active response'')]"
    "get_or [(''message'', JStr ''Conversation already has an active response'')]
       ''message'' (JStr []) = JStr ''Conversation already has an active response''"
    "get_or [(''type'', JStr ''error'')] ''error'' (JObj []) = JObj []"
    "get_or [] ''message'' (JStr []) = JStr []"
    by (simp_all add: get_or_def)
  show ?thesis
    using g(1,2)
      handle_error_by_message [OF g(1,2), of example_env example_client]
      handle_error_by_message [OF g(3,4), of example_env example_client]
      handle_error_by_message [OF g(5,6), of example_env example_client]
    by (simp add: t)
qed

section \<open>Function execution\<close>



lemma log_ws_event_outgoing:
  "get_or d ''type'' JNull = JStr t \<Longrightarrow>
   log_ws_event direction (JObj d) s = (None, s\<lparr>trace := trace s @ [LogWsEvent direction (JObj d)]\<rparr>)"
  by (simp add: log_ws_event_def get_or_def unhashable_def emit_def split: option.splits)









text \<open>
  C9. With no pending function call (\<open>function_call\<close> is \<open>None\<close>) the handler of
  \<^verbatim>\<open>response.function_call_arguments.done\<close> returns normally and leaves the whole client,
  its trace included, as it was: nothing is executed, sent or logged. The same holds for
  the event going through the dispatcher.
\<close>

theorem arguments_done_without_pending_call:
  "function_call s = None \<Longrightarrow>
     handle_function_call_arguments_done env fm event s = (None, s)
     \<and> (event_handlers s = register_event_handlers []
          \<and> get_or d ''type'' JNull = JStr RESPONSE_FUNCTION_CALL_ARGUMENTS_DONE
        \<longrightarrow> handle_event env fm now (JObj d) s = (None, s))"
proof (intro conjI impI)
  assume n: "function_call s = None"
  show h: "handle_function_call_arguments_done env fm event s = (None, s)" for event
    using n by (simp add: handle_function_call_arguments_done_def)
  assume a: "event_handlers s = register_event_handlers []
          \<and> get_or d ''type'' JNull = JStr RESPONSE_FUNCTION_CALL_ARGUMENTS_DONE"
  then have "handle_event env fm now (JObj d) s
        = call_handler env fm now HandleFunctionCallArgumentsDone d s"
    using handle_event_registered [of s d "''response.function_call_arguments.done''" env fm now]
    by (simp add: registered_handlers event_names)
  then show "handle_event env fm now (JObj d) s = (None, s)"
    using h by (simp add: call_handler_def)
qed

theorem arguments_done_without_pending_call_witness:
  "function_call example_client = None
   \<and> event_handlers example_client = register_event_handlers []
   \<and> get_or [(''type'', JStr ''response.function_call_arguments.done'')] ''type'' JNull
       = JStr RESPONSE_FUNCTION_CALL_ARGUMENTS_DONE
   \<and> handle_event example_env (function_map example_env) 0
        (JObj [(''type'', JStr ''response.function_call_arguments.done'')]) example_client
       = (None, example_client)"
  using arguments_done_without_pending_call
          [of example_client example_env "function_map example_env" "[]"
              "[(''type'', JStr ''response.function_call_arguments.done'')]" 0]
  by (simp add: example_client_handlers get_or_def event_names)
     (simp add: example_client_def RealtimeAPI_init_def)

section \<open>Accumulation of function-call arguments\<close>

lemma registered_handler_type:
  assumes "map_of (register_event_handlers []) t = Some h"
  shows "(h = HandleOutputItemAdded \<longleftrightarrow> t = RESPONSE_OUTPUT_ITEM_ADDED)
       \<and> (h = HandleFunctionCallArgumentsDone \<longleftrightarrow> t = RESPONSE_FUNCTION_CALL_ARGUMENTS_DONE)
       \<and> (h = HandleFunctionCallArgumentsDelta \<longleftrightarrow> t = RESPONSE_FUNCTION_CALL_ARGUMENTS_DELTA)"
  using assms by (simp add: registered_handlers event_names split: if_splits)

lemma call_handler_frame:
  assumes "h \<noteq> HandleOutputItemAdded"
    and "h \<noteq> HandleFunctionCallArgumentsDone"
    and "call_handler env fm now h d s = (None, s')"
  shows "function_call s' = function_call s \<and> event_handlers s' = event_handlers s
       \<and> function_call_args s' =
           (if h = HandleFunctionCallArgumentsDelta
            then function_call_args s @
                 (case get_or d ''delta'' (JStr []) of JStr text \<Rightarrow> text | _ \<Rightarrow> [])
            else function_call_args s)"
proof (cases h)
  case HandleError
  then show ?thesis
    using assms(3)
    by (auto simp: call_handler_def handle_error_def emit_def Let_def
          split: json.splits sum.splits bool.splits if_splits)
next
  case HandleResponseDone
  then show ?thesis
    using assms(3)
    by (auto simp: call_handler_def handle_response_done_def emit_def Let_def
          play_audio_with_silence_buffer_def split: option.splits if_splits)
next
  case HandleResponseAudioDelta
  then show ?thesis
    using assms(3)
    by (auto simp: call_handler_def handle_response_audio_delta_def
          split: option.splits json.splits)
qed (use assms in \<open>auto simp: call_handler_def handle_response_created_def
       handle_function_call_arguments_delta_def handle_response_text_delta_def
       handle_speech_started_def handle_speech_stopped_def handle_rate_limits_updated_def
       emit_def Let_def split: json.splits\<close>)

lemma handle_event_frame:
  assumes reg: "event_handlers s = register_event_handlers []"
    and na: "event_type event \<noteq> JStr RESPONSE_OUTPUT_ITEM_ADDED"
    and nd: "event_type event \<noteq> JStr RESPONSE_FUNCTION_CALL_ARGUMENTS_DONE"
    and he: "handle_event env fm now event s = (None, s')"
  shows "function_call s' = function_call s \<and> event_handlers s' = event_handlers s
       \<and> function_call_args s' = function_call_args s @ event_delta event"
proof (cases event)
  case (JObj d)
  show ?thesis
  proof (cases "get_or d ''type'' JNull")
    case (JStr t)
    note r = handle_event_registered [OF reg JStr, of env fm now]
    show ?thesis
    proof (cases "map_of (register_event_handlers []) t")
      case None
      then have "t \<noteq> RESPONSE_FUNCTION_CALL_ARGUMENTS_DELTA"
        by (auto simp: registered_handlers event_names)
      then show ?thesis
        using he r None JObj JStr by (auto simp: emit_def event_delta_def)
    next
      case (Some h)
      note ty = registered_handler_type [OF Some]
      have c: "call_handler env fm now h d s = (None, s')"
        using he r Some JObj by simp
      have "h \<noteq> HandleOutputItemAdded" "h \<noteq> HandleFunctionCallArgumentsDone"
        using ty na nd JObj JStr by (simp_all add: event_type_def)
      from call_handler_frame [OF this c] show ?thesis
        using ty JObj JStr by (simp add: event_delta_def)
    qed
  qed (use he JObj in \<open>auto simp: handle_event_def get_handler_def unhashable_def emit_def
         event_delta_def\<close>)
qed (use he in \<open>simp_all add: handle_event_def\<close>)

lemma ws_iteration_frame:
  assumes reg: "event_handlers s = register_event_handlers []"
    and nr: "\<not> resets_call env x"
    and it: "ws_iteration env fm x s = (AwaitingMessage, s')"
  shows "function_call s' = function_call s \<and> event_handlers s' = event_handlers s
       \<and> function_call_args s' = function_call_args s @ delta_text env x"
proof (cases "snd x")
  case (RecvRaised e)
  then show ?thesis
    using it by (simp add: ws_iteration_def split: if_splits)
next
  case (Message message)
  show ?thesis
  proof (cases "loads env message")
    case None
    then show ?thesis
      using it Message by (simp add: ws_iteration_def is_connection_closed_def)
  next
    case (Some event)
    have d: "decoded env x = Some event"
      using Message Some by (simp add: decoded_def)
    obtain s1 where l: "log_ws_event ''Incoming'' event s = (None, s1)"
      and h: "handle_event env fm (fst x) event s1 = (None, s')"
      using it Message Some
      by (auto simp: ws_iteration_def and_then_def split: prod.splits option.splits if_splits)
    have s1: "s1 = emit [LogWsEvent ''Incoming'' event] s"
      using l by (auto simp: log_ws_event_def split: json.splits if_splits)
    have reg1: "event_handlers s1 = register_event_handlers []"
      using reg s1 by (simp add: emit_def)
    have "event_type event \<noteq> JStr RESPONSE_OUTPUT_ITEM_ADDED"
      "event_type event \<noteq> JStr RESPONSE_FUNCTION_CALL_ARGUMENTS_DONE"
      using nr d by (simp_all add: resets_call_def)
    from handle_event_frame [OF reg1 this h] show ?thesis
      using s1 d by (simp add: emit_def delta_text_def)
  qed
qed

lemma process_ws_messages_frame:
  assumes "event_handlers s = register_event_handlers []"
    and "\<forall>x\<in>set xs. \<not> resets_call env x"
    and "process_ws_messages env fm xs s = (AwaitingMessage, s')"
  shows "function_call s' = function_call s \<and> event_handlers s' = event_handlers s
       \<and> function_call_args s' = function_call_args s @ concat (map (delta_text env) xs)"
  using assms
proof (induction xs arbitrary: s)
  case Nil
  then show ?case by simp
next
  case (Cons x xs)
  obtain s1 where it: "ws_iteration env fm x s = (AwaitingMessage, s1)"
    and rest: "process_ws_messages env fm xs s1 = (AwaitingMessage, s')"
    using Cons.prems(3) by (auto split: prod.splits loop_status.splits)
  have f: "function_call s1 = function_call s \<and> event_handlers s1 = event_handlers s
       \<and> function_call_args s1 = function_call_args s @ delta_text env x"
    using ws_iteration_frame [OF Cons.prems(1) _ it] Cons.prems(2) by simp
  have "function_call s' = function_call s1 \<and> event_handlers s' = event_handlers s1
       \<and> function_call_args s' = function_call_args s1 @ concat (map (delta_text env) xs)"
    using Cons.IH [of s1] f Cons.prems(1,2) rest by simp
  then show ?case
    using f by simp
qed

lemma ws_iteration_output_item_added:
  assumes reg: "event_handlers s = register_event_handlers []"
    and m0: "loads env m0 = Some (JObj d0)"
    and ty: "get_or d0 ''type'' JNull = JStr RESPONSE_OUTPUT_ITEM_ADDED"
    and it: "get_or d0 ''item'' (JObj []) = JObj item"
    and fc: "get_or item ''type'' JNull = JStr ''function_call''"
  shows "ws_iteration env fm (t0, Message m0) s =
           (AwaitingMessage,
            s\<lparr>function_call := Some item, function_call_args := [],
              trace := trace s @ [LogWsEvent ''Incoming'' (JObj d0)]\<rparr>)"
proof -
  have ty': "get_or d0 ''type'' (JStr ''Unknown'') = JStr RESPONSE_OUTPUT_ITEM_ADDED"
    using ty by (auto simp: get_or_def split: option.splits)
  have l: "log_ws_event ''Incoming'' (JObj d0) s
           = (None, s\<lparr>trace := trace s @ [LogWsEvent ''Incoming'' (JObj d0)]\<rparr>)"
    using ty' by (simp add: log_ws_event_def unhashable_def emit_def)
  have "handle_event env fm t0 (JObj d0) (s\<lparr>trace := trace s @ [LogWsEvent ''Incoming'' (JObj d0)]\<rparr>)
        = handle_output_item_added d0 (s\<lparr>trace := trace s @ [LogWsEvent ''Incoming'' (JObj d0)]\<rparr>)"
    using handle_event_registered [of "s\<lparr>trace := trace s @ [LogWsEvent ''Incoming'' (JObj d0)]\<rparr>"
            d0 "''response.output_item.added''" env fm t0] reg ty
    by (simp add: registered_handlers event_names call_handler_def)
  then show ?thesis
    using m0 l it fc
    by (simp add: ws_iteration_def and_then_def handle_output_item_added_def)
qed

lemma ws_iteration_arguments_delta:
  assumes reg: "event_handlers s = register_event_handlers []"
    and d: "is_arguments_delta env x"
  shows "fst (ws_iteration env fm x s) = AwaitingMessage
       \<and> event_handlers (snd (ws_iteration env fm x s)) = event_handlers s"
proof -
  obtain message d0 piece where m: "snd x = Message message"
    and l: "loads env message = Some (JObj d0)"
    and ty: "get_or d0 ''type'' JNull = JStr RESPONSE_FUNCTION_CALL_ARGUMENTS_DELTA"
    and tx: "get_or d0 ''delta'' (JStr []) = JStr piece"
    using d
    by (auto simp: is_arguments_delta_def decoded_def
          split: recv.splits option.splits json.splits)
  have ty': "get_or d0 ''type'' (JStr ''Unknown'') = JStr RESPONSE_FUNCTION_CALL_ARGUMENTS_DELTA"
    using ty by (auto simp: get_or_def split: option.splits)
  let ?s1 = "s\<lparr>trace := trace s @ [LogWsEvent ''Incoming'' (JObj d0)]\<rparr>"
  have lg: "log_ws_event ''Incoming'' (JObj d0) s = (None, ?s1)"
    using ty' by (simp add: log_ws_event_def unhashable_def emit_def)
  have "handle_event env fm (fst x) (JObj d0) ?s1
        = handle_function_call_arguments_delta d0 ?s1"
    using handle_event_registered [of ?s1 d0 "''response.function_call_arguments.delta''"
            env fm "fst x"] reg ty
    by (simp add: registered_handlers event_names call_handler_def)
  then show ?thesis
    using m l lg tx
    by (simp add: ws_iteration_def and_then_def handle_function_call_arguments_delta_def)
qed

lemma process_ws_messages_deltas:
  assumes "event_handlers s = register_event_handlers []"
    and "\<forall>x\<in>set xs. is_arguments_delta env x"
  shows "fst (process_ws_messages env fm xs s) = AwaitingMessage"
  using assms
proof (induction xs arbitrary: s)
  case Nil
  then show ?case by simp
next
  case (Cons x xs)
  have i: "fst (ws_iteration env fm x s) = AwaitingMessage"
    "event_handlers (snd (ws_iteration env fm x s)) = register_event_handlers []"
    using ws_iteration_arguments_delta [of s env x fm] Cons.prems by simp_all
  obtain s1 where s1: "ws_iteration env fm x s = (AwaitingMessage, s1)"
    using i(1) by (cases "ws_iteration env fm x s") simp
  have "event_handlers s1 = register_event_handlers []"
    using i(2) s1 by simp
  from Cons.IH [OF this] show ?case
    using Cons.prems(2) s1 by simp
qed

text \<open>
  C5. Let an \<^verbatim>\<open>response.output_item.added\<close> message carrying a \<^verbatim>\<open>function_call\<close> item be
  handled by the message loop, followed by messages \<open>xs\<close> none of which is an
  output-item-added or an arguments-done event. If every message of \<open>xs\<close> is an arguments
  delta with a text, the loop handles them all and waits for the next message. Whenever it
  has handled them all, the pending call is that item and the accumulated argument text is
  the concatenation, in order, of the delta texts of \<open>xs\<close> (other events contribute
  nothing).
\<close>

theorem function_call_arguments_accumulate:
  assumes reg: "event_handlers s = register_event_handlers []"
    and m0: "loads env m0 = Some (JObj d0)"
    and ty: "get_or d0 ''type'' JNull = JStr RESPONSE_OUTPUT_ITEM_ADDED"
    and it: "get_or d0 ''item'' (JObj []) = JObj item"
    and fc: "get_or item ''type'' JNull = JStr ''function_call''"
    and nr: "\<forall>x\<in>set xs. \<not> resets_call env x"
  shows "((\<forall>x\<in>set xs. is_arguments_delta env x) \<longrightarrow>
            fst (process_ws_messages env fm ((t0, Message m0) # xs) s) = AwaitingMessage)
       \<and> (fst (process_ws_messages env fm ((t0, Message m0) # xs) s) = AwaitingMessage \<longrightarrow>
            function_call (snd (process_ws_messages env fm ((t0, Message m0) # xs) s)) = Some item
            \<and> function_call_args (snd (process_ws_messages env fm ((t0, Message m0) # xs) s))
                = concat (map (delta_text env) xs))"
proof -
  let ?s0 = "s\<lparr>function_call := Some item, function_call_args := [],
              trace := trace s @ [LogWsEvent ''Incoming'' (JObj d0)]\<rparr>"
  have first: "process_ws_messages env fm ((t0, Message m0) # xs) s
               = process_ws_messages env fm xs ?s0"
    using ws_iteration_output_item_added [OF reg m0 ty it fc, of fm t0] by simp
  have reg0: "event_handlers ?s0 = register_event_handlers []"
    using reg by simp
  show ?thesis
  proof (intro conjI impI)
    assume "\<forall>x\<in>set xs. is_arguments_delta env x"
    then show "fst (process_ws_messages env fm ((t0, Message m0) # xs) s) = AwaitingMessage"
      unfolding first by (rule process_ws_messages_deltas [OF reg0])
  next
    assume "fst (process_ws_messages env fm ((t0, Message m0) # xs) s) = AwaitingMessage"
    then obtain s1 where s1: "process_ws_messages env fm xs ?s0 = (AwaitingMessage, s1)"
      unfolding first by (cases "process_ws_messages env fm xs ?s0") simp
    from process_ws_messages_frame [OF reg0 nr s1]
    show "function_call (snd (process_ws_messages env fm ((t0, Message m0) # xs) s)) = Some item"
      "function_call_args (snd (process_ws_messages env fm ((t0, Message m0) # xs) s))
                = concat (map (delta_text env) xs)"
      unfolding first s1 by simp_all
  qed
qed

theorem function_call_arguments_accumulate_witness:
  \<open>event_handlers example_client = register_event_handlers []
   \<and> loads example_env
        ''{"type": "response.output_item.added", "item": {"type": "function_call", "name": "get_current_time", "call_id": "call_1"}}''
       = Some (JObj [(''type'', JStr ''response.output_item.added''), (''item'', JObj example_call)])
   \<and> \<not> resets_call example_env
         (1, Message ''{"type": "response.function_call_arguments.delta", "delta": "{"}'')
   \<and> \<not> resets_call example_env (2, Message ''{"type": "response.text.delta", "delta": "Hi"}'')
   \<and> \<not> resets_call example_env
         (3, Message ''{"type": "response.function_call_arguments.delta", "delta": "}"}'')
   \<and> fst (process_ws_messages example_env (function_map example_env)
        [(0, Message ''{"type": "response.output_item.added", "item": {"type": "function_call", "name": "get_current_time", "call_id": "call_1"}}''),
         (1, Message ''{"type": "response.function_call_arguments.delta", "delta": "{"}''),
         (2, Message ''{"type": "response.text.delta", "delta": "Hi"}''),
         (3, Message ''{"type": "response.function_call_arguments.delta", "delta": "}"}'')]
        example_client) = AwaitingMessage
   \<and> function_call (snd (process_ws_messages example_env (function_map example_env)
        [(0, Message ''{"type": "response.output_item.added", "item": {"type": "function_call", "name": "get_current_time", "call_id": "call_1"}}''),
         (1, Message ''{"type": "response.function_call_arguments.delta", "delta": "{"}''),
         (2, Message ''{"type": "response.text.delta", "delta": "Hi"}''),
         (3, Message ''{"type": "response.function_call_arguments.delta", "delta": "}"}'')]
        example_client)) = Some example_call
   \<and> function_call_args (snd (process_ws_messages example_env (function_map example_env)
        [(0, Message ''{"type": "response.output_item.added", "item": {"type": "function_call", "name": "get_current_time", "call_id": "call_1"}}''),
         (1, Message ''{"type": "response.function_call_arguments.delta", "delta": "{"}''),
         (2, Message ''{"type": "response.text.delta", "delta": "Hi"}''),
         (3, Message ''{"type": "response.function_call_arguments.delta", "delta": "}"}'')]
        example_client)) = ''{}''\<close>
proof -
  let ?m0 = \<open>''{"type": "response.output_item.added", "item": {"type": "function_call", "name": "get_current_time", "call_id": "call_1"}}''\<close>
  let ?xs = \<open>[(1 :: time, Message ''{"type": "response.function_call_arguments.delta", "delta": "{"}''),
              (2, Message ''{"type": "response.text.delta", "delta": "Hi"}''),
              (3, Message ''{"type": "response.function_call_arguments.delta", "delta": "}"}'')]\<close>
  have m0: "loads example_env ?m0
       = Some (JObj [(''type'', JStr ''response.output_item.added''), (''item'', JObj example_call)])"
    by (simp add: example_env_def example_messages_def example_call_def)
  have ty: "get_or [(''type'', JStr ''response.output_item.added''), (''item'', JObj example_call)]
              ''type'' JNull = JStr RESPONSE_OUTPUT_ITEM_ADDED"
    and it: "get_or [(''type'', JStr ''response.output_item.added''), (''item'', JObj example_call)]
              ''item'' (JObj []) = JObj example_call"
    and fc: "get_or example_call ''type'' JNull = JStr ''function_call''"
    by (simp_all add: get_or_def event_names example_call_def)
  have dec:
    \<open>decoded example_env
       (1, Message ''{"type": "response.function_call_arguments.delta", "delta": "{"}'')
     = Some (JObj [(''type'', JStr ''response.function_call_arguments.delta''),
                   (''delta'', JStr ''{'')])\<close>
    \<open>decoded example_env (2, Message ''{"type": "response.text.delta", "delta": "Hi"}'')
     = Some (JObj [(''type'', JStr ''response.text.delta''), (''delta'', JStr ''Hi'')])\<close>
    \<open>decoded example_env
       (3, Message ''{"type": "response.function_call_arguments.delta", "delta": "}"}'')
     = Some (JObj [(''type'', JStr ''response.function_call_arguments.delta''),
                   (''delta'', JStr ''}'')])\<close>
    by (simp_all add: decoded_def example_env_def example_messages_def)
  have nr: "\<forall>x\<in>set ?xs. \<not> resets_call example_env x"
    by (simp add: resets_call_def dec event_type_def get_or_def event_names)
  have dt: "concat (map (delta_text example_env) ?xs) = ''{}''"
    by (simp add: delta_text_def dec event_delta_def get_or_def event_names)
  note t = function_call_arguments_accumulate
             [OF example_client_handlers m0 ty it fc nr, of "function_map example_env" 0]
  have ok: "fst (process_ws_messages example_env (function_map example_env)
                   ((0, Message ?m0) # ?xs) example_client) = AwaitingMessage"
    by (simp add: ws_iteration_def example_env_def example_messages_def log_ws_event_def
          get_or_def unhashable_def and_then_def emit_def handle_event_def get_handler_def
          example_client_def RealtimeAPI_init_def register_event_handlers_def register_def
          event_names call_handler_def handle_output_item_added_def
          handle_function_call_arguments_delta_def handle_response_text_delta_def)
  show ?thesis
    using m0 nr ok t [THEN conjunct2, THEN mp, OF ok] dt example_client_handlers by simp
qed

section \<open>Events without their payload\<close>

text \<open>
  C10. An event \<^verbatim>\<open>{"type": "response.audio.delta"}\<close> without a \<^verbatim>\<open>delta\<close> field makes its
  handler raise \<^verbatim>\<open>KeyError\<close>, which the dispatcher passes on; the handlers of
  \<^verbatim>\<open>response.text.delta\<close> and \<^verbatim>\<open>response.function_call_arguments.delta\<close> return normally
  on an event without that field.
\<close>

theorem audio_delta_without_delta_raises:
  "handle_event example_env (function_map example_env) 0
     (JObj [(''type'', JStr ''response.audio.delta'')]) example_client
   = (Some (KeyError ''delta''), example_client)
   \<and> fst (handle_event example_env (function_map example_env) 0
        (JObj [(''type'', JStr ''response.text.delta'')]) example_client) = None
   \<and> fst (handle_event example_env (function_map example_env) 0
        (JObj [(''type'', JStr ''response.function_call_arguments.delta'')]) example_client) = None"
proof -
  have t: "get_or [(''type'', JStr x)] ''type'' JNull = JStr x" for x
    by (simp add: get_or_def)
  show ?thesis
    using handle_event_registered [OF example_client_handlers t [of "''response.audio.delta''"],
            of example_env "function_map example_env" 0]
          handle_event_registered [OF example_client_handlers t [of "''response.text.delta''"],
            of example_env "function_map example_env" 0]
          handle_event_registered [OF example_client_handlers
            t [of "''response.function_call_arguments.delta''"],
            of example_env "function_map example_env" 0]
    by (simp add: registered_handlers call_handler_def handle_response_audio_delta_def
          handle_response_text_delta_def handle_function_call_arguments_delta_def get_or_def)
qed

section \<open>The run loop\<close>





lemma run_unexpected:
  assumes "try_body env fm a s = (Raised e, s1)"
    and "\<not> is_connection_closed e"
    and "e \<noteq> KeyboardInterrupt"
  shows "run env fm (a # as) s =
           (Stopped, run_finally (emit [LogError (''An unexpected error occurred: '' @
                                                  str_of_error env e)] s1))"
  using assms by (cases e) (simp_all add: is_connection_closed_def)

lemma connection_start_ok: "fst (connection_start env s) = None"
  by (simp add: connection_start_def initialize_session_def send_initial_prompts_def
        log_ws_event_def get_or_def unhashable_def and_then_def emit_def Let_def
        split: option.splits)

lemma try_body_task_raised:
  assumes "connect_error a = None"
    and "connection_start env (open_connection s) = (None, s1)"
    and "send_user_audio env fm a (AwaitingMessage, s1) = (Completed, LoopRaised e, s2)"
  shows "try_body env fm a s = (Raised e, emit [WsClose] s2)"
  using assms by (simp add: try_body_def resume_ws_def Let_def)



lemmas run_eval =
  try_body_def open_connection_def connection_start_def initialize_session_def
  send_user_audio_def send_user_audio_finally_def send_user_audio_iteration_def
  get_audio_data_def callback_def resume_ws_def ws_iteration_def
  log_ws_event_def get_or_def unhashable_def and_then_def emit_def handle_event_def
  get_handler_def register_event_handlers_def register_def event_names call_handler_def
  is_connection_closed_def str_of_error_def before_reconnect_def run_finally_def
  start_recording_def stop_recording_def start_receiving_def stop_receiving_def close_def
  Let_def example_env_def example_messages_def
  example_client_def RealtimeAPI_init_def init_microphone_def





section \<open>Handler failures\<close>

lemma ws_iteration_handler_raises:
  assumes "loads env message = Some event"
    and "log_ws_event ''Incoming'' event s = (None, s1)"
    and "handle_event env fm now event s1 = (Some e, s2)"
    and "\<not> is_connection_closed e"
  shows "ws_iteration env fm (now, Message message) s = (LoopRaised e, s2)"
  using assms by (simp add: ws_iteration_def and_then_def)

text \<open>
  C2, as the code has it. When the handler of a received event raises an exception other
  than \<^verbatim>\<open>ConnectionClosed\<close>, the message loop ends with that exception and the messages
  after it are not handled; the exception is the handler's own, passed on by the
  dispatcher; and once the audio loop has returned and \<^verbatim>\<open>run\<close> awaits the message task,
  \<^verbatim>\<open>run\<close> logs the exception as unexpected and stops.
\<close>

theorem handler_failure_ends_message_loop:
  assumes "loads env message = Some event"
    and "log_ws_event ''Incoming'' event s = (None, s1)"
    and "handle_event env fm now event s1 = (Some e, s2)"
    and "\<not> is_connection_closed e"
  shows "process_ws_messages env fm ((now, Message message) # rest) s = (LoopRaised e, s2)
       \<and> (event = JObj d \<and> get_or d ''type'' JNull = JStr t
            \<and> map_of (event_handlers s1) t = Some h \<longrightarrow>
            call_handler env fm now h d s1 = (Some e, s2))
       \<and> (e \<noteq> KeyboardInterrupt \<and> connect_error a = None
            \<and> connection_start env (open_connection c) = (None, c1)
            \<and> send_user_audio env fm a (AwaitingMessage, c1) = (Completed, LoopRaised e, c2) \<longrightarrow>
            run env fm (a # as) c =
              (Stopped,
               run_finally (emit [LogError (''An unexpected error occurred: '' @
                                            str_of_error env e)] (emit [WsClose] c2))))"
proof (intro conjI impI)
  show "process_ws_messages env fm ((now, Message message) # rest) s = (LoopRaised e, s2)"
    using ws_iteration_handler_raises [OF assms] by simp
next
  assume "event = JObj d \<and> get_or d ''type'' JNull = JStr t
            \<and> map_of (event_handlers s1) t = Some h"
  then show "call_handler env fm now h d s1 = (Some e, s2)"
    using assms(3) by (simp add: handle_event_def get_handler_def unhashable_def)
next
  assume r: "e \<noteq> KeyboardInterrupt \<and> connect_error a = None
            \<and> connection_start env (open_connection c) = (None, c1)
            \<and> send_user_audio env fm a (AwaitingMessage, c1) = (Completed, LoopRaised e, c2)"
  then have tb: "try_body env fm a c = (Raised e, emit [WsClose] c2)"
    by (simp add: try_body_task_raised)
  show "run env fm (a # as) c =
              (Stopped,
               run_finally (emit [LogError (''An unexpected error occurred: '' @
                                            str_of_error env e)] (emit [WsClose] c2)))"
    by (rule run_unexpected [OF tb assms(4)]) (simp add: r)
qed

lemma example_faulty_message:
  \<open>loads example_env ''{"type": "response.audio.delta"}''
     = Some (JObj [(''type'', JStr ''response.audio.delta'')])\<close>
  "log_ws_event ''Incoming'' (JObj [(''type'', JStr ''response.audio.delta'')]) s
     = (None, s\<lparr>trace := trace s @
          [LogWsEvent ''Incoming'' (JObj [(''type'', JStr ''response.audio.delta'')])]\<rparr>)"
  "event_handlers s = register_event_handlers [] \<Longrightarrow>
   handle_event example_env fm now (JObj [(''type'', JStr ''response.audio.delta'')]) s
     = (Some (KeyError ''delta''), s)"
proof -
  show \<open>loads example_env ''{"type": "response.audio.delta"}''
     = Some (JObj [(''type'', JStr ''response.audio.delta'')])\<close>
    by (simp add: example_env_def example_messages_def)
  show "log_ws_event ''Incoming'' (JObj [(''type'', JStr ''response.audio.delta'')]) s
     = (None, s\<lparr>trace := trace s @
          [LogWsEvent ''Incoming'' (JObj [(''type'', JStr ''response.audio.delta'')])]\<rparr>)"
    by (simp add: log_ws_event_def get_or_def unhashable_def emit_def)
  assume "event_handlers s = register_event_handlers []"
  then show "handle_event example_env fm now (JObj [(''type'', JStr ''response.audio.delta'')]) s
     = (Some (KeyError ''delta''), s)"
    using handle_event_registered [of s "[(''type'', JStr ''response.audio.delta'')]"
            "''response.audio.delta''" example_env fm now]
    by (simp add: get_or_def registered_handlers call_handler_def handle_response_audio_delta_def)
qed

theorem handler_failure_ends_message_loop_witness:
  \<open>loads example_env ''{"type": "response.audio.delta"}''
     = Some (JObj [(''type'', JStr ''response.audio.delta'')])
   \<and> log_ws_event ''Incoming'' (JObj [(''type'', JStr ''response.audio.delta'')]) example_client
       = (None, example_client\<lparr>trace := trace example_client @
            [LogWsEvent ''Incoming'' (JObj [(''type'', JStr ''response.audio.delta'')])]\<rparr>)
   \<and> handle_event example_env (function_map example_env) 0
         (JObj [(''type'', JStr ''response.audio.delta'')])
         (example_client\<lparr>trace := trace example_client @
            [LogWsEvent ''Incoming'' (JObj [(''type'', JStr ''response.audio.delta'')])]\<rparr>)
       = (Some (KeyError ''delta''),
          example_client\<lparr>trace := trace example_client @
            [LogWsEvent ''Incoming'' (JObj [(''type'', JStr ''response.audio.delta'')])]\<rparr>)
   \<and> \<not> is_connection_closed (KeyError ''delta'')
   \<and> fst (process_ws_messages example_env (function_map example_env)
            [(0, Message ''{"type": "response.audio.delta"}''),
             (1, Message ''{"type": "response.created"}'')] example_client)
       = LoopRaised (KeyError ''delta'')
   \<and> fst (run example_env (function_map example_env) [example_faulty] example_client) = Stopped\<close>
proof -
  let ?ev = "JObj [(''type'', JStr ''response.audio.delta'')]"
  let ?s1 = "example_client\<lparr>trace := trace example_client @ [LogWsEvent ''Incoming'' ?ev]\<rparr>"
  let ?F = "function_map example_env"
  let ?c1 = "snd (connection_start example_env (open_connection example_client))"
  let ?c2 = "snd (snd (send_user_audio example_env ?F example_faulty (AwaitingMessage, ?c1)))"
  note h1 = example_faulty_message(1)
  note h2 = example_faulty_message(2) [of example_client]
  have h3: "handle_event example_env ?F 0 ?ev ?s1 = (Some (KeyError ''delta''), ?s1)"
    by (rule example_faulty_message(3)) (simp add: example_client_handlers)
  have h4: "\<not> is_connection_closed (KeyError ''delta'')"
    by (simp add: is_connection_closed_def)
  have cs: "connection_start example_env (open_connection example_client) = (None, ?c1)"
    using connection_start_ok [of example_env "open_connection example_client"]
    by (metis prod.collapse)
  have "fst (send_user_audio example_env ?F example_faulty (AwaitingMessage, ?c1)) = Completed"
    "fst (snd (send_user_audio example_env ?F example_faulty (AwaitingMessage, ?c1)))
       = LoopRaised (KeyError ''delta'')"
    by (simp_all add: run_eval example_faulty_def handle_response_audio_delta_def)
  then have sua: "send_user_audio example_env ?F example_faulty (AwaitingMessage, ?c1)
                  = (Completed, LoopRaised (KeyError ''delta''), ?c2)"
    by (metis prod.collapse)
  have ce: "connect_error example_faulty = None"
    by (simp add: example_faulty_def)
  note t = handler_failure_ends_message_loop [OF h1 h2 h3 h4,
             where rest = \<open>[(1, Message ''{"type": "response.created"}'')]\<close>
               and a = example_faulty and c = example_client and ?c1.0 = ?c1 and ?c2.0 = ?c2
               and as = "[]"]
  have r: "run example_env ?F [example_faulty] example_client =
              (Stopped,
               run_finally (emit [LogError (''An unexpected error occurred: '' @
                                      str_of_error example_env (KeyError ''delta''))]
                              (emit [WsClose] ?c2)))"
    using t [THEN conjunct2, THEN conjunct2] ce cs sua by blast
  show ?thesis
    using h1 h2 h3 h4 t [THEN conjunct1] r by simp
qed

text \<open>
  C2 as stated fails: an audio delta without its \<^verbatim>\<open>delta\<close> field ends the message loop
  with \<^verbatim>\<open>KeyError\<close>; the \<^verbatim>\<open>response.created\<close> message behind it is never handled.
\<close>

theorem handler_failure_counterexample:
  \<open>process_ws_messages example_env (function_map example_env)
     [(0, Message ''{"type": "response.audio.delta"}''),
      (1, Message ''{"type": "response.created"}'')] example_client
   = (LoopRaised (KeyError ''delta''),
      example_client\<lparr>trace :=
        [LogWsEvent ''Incoming'' (JObj [(''type'', JStr ''response.audio.delta'')])]\<rparr>)\<close>
proof -
  have t: "trace example_client = []"
    by (simp add: example_client_def RealtimeAPI_init_def)
  have \<open>ws_iteration example_env (function_map example_env)
          (0, Message ''{"type": "response.audio.delta"}'') example_client
        = (LoopRaised (KeyError ''delta''),
           example_client\<lparr>trace := trace example_client @
             [LogWsEvent ''Incoming'' (JObj [(''type'', JStr ''response.audio.delta'')])]\<rparr>)\<close>
    by (rule ws_iteration_handler_raises [OF example_faulty_message(1,2)])
       (simp_all add: example_faulty_message(3) example_client_handlers is_connection_closed_def)
  then show ?thesis
    by (simp add: t)
qed

end
